theory Spec2Isabelle
  imports Main "HOL-Library.AList" "HOL-Library.Word"
begin

section \<open>Gaea namespace runtime (proxy/server/namespace.go)\<close>

text \<open>
  A shallow embedding of the namespace runtime of the Gaea MySQL proxy: the construction
  of a namespace from its configuration, the policy lookups, the close path and the
  backend health probe. Go maps are association lists with distinct keys (the order of
  the list stands for the order in which \<open>range\<close> visits the map); Go's \<open>int\<close> is
  \<open>int\<close> with the 64-bit wrap-around written out where the code does arithmetic;
  \<open>uint64\<close> is \<open>64 word\<close>. Strings are byte strings, in UTF-8 where a code point
  matters.
\<close>

subsection \<open>Constants\<close>

definition namespaceDelayClose :: int where
  "namespaceDelayClose = 60"

definition defaultSQLCacheCapacity :: nat where
  "defaultSQLCacheCapacity = 64"

definition defaultPlanCacheCapacity :: nat where
  "defaultPlanCacheCapacity = 128"

definition defaultSlowSQLTime :: int where
  "defaultSlowSQLTime = 1000"

definition defaultMaxSqlExecuteTime :: int where
  "defaultMaxSqlExecuteTime = 0"

definition defaultMaxSqlResultSize :: int where
  "defaultMaxSqlResultSize = 10000"

definition defaultTimeAfterNoAlive :: int where
  "defaultTimeAfterNoAlive = 8"

definition defaultMaxClientConnections :: int where
  "defaultMaxClientConnections = 100000000"

subsection \<open>Data model\<close>

text \<open>\<open>backend.StatusCode\<close>: the status of one backend instance.\<close>

datatype StatusCode = UP | DOWN

text \<open>
  Modelled from the spec: the LRU cache of package \<open>util/cache\<close>, which is not among the
  sources. A cache has a fixed capacity and its entries, most recently used first;
  \<open>Set\<close> evicts the least recently used entry on overflow, \<open>SetIfAbsent\<close> leaves an
  existing entry alone, \<open>Clear\<close> empties the cache.
\<close>

record 'v LRUCache =
  capacity :: nat
  entries :: "(string \<times> 'v) list"

definition NewLRUCache :: "nat \<Rightarrow> 'v LRUCache" where
  "NewLRUCache c = \<lparr>capacity = c, entries = []\<rparr>"

definition lru_Get :: "'v LRUCache \<Rightarrow> string \<Rightarrow> 'v option \<times> 'v LRUCache" where
  "lru_Get c k =
     (case map_of (entries c) k of
        None \<Rightarrow> (None, c)
      | Some v \<Rightarrow> (Some v, c\<lparr>entries := (k, v) # AList.delete k (entries c)\<rparr>))"

definition lru_Set :: "'v LRUCache \<Rightarrow> string \<Rightarrow> 'v \<Rightarrow> 'v LRUCache" where
  "lru_Set c k v = c\<lparr>entries := take (capacity c) ((k, v) # AList.delete k (entries c))\<rparr>"

definition lru_SetIfAbsent :: "'v LRUCache \<Rightarrow> string \<Rightarrow> 'v \<Rightarrow> 'v LRUCache" where
  "lru_SetIfAbsent c k v =
     (case map_of (entries c) k of
        None \<Rightarrow> c\<lparr>entries := take (capacity c) ((k, v) # entries c)\<rparr>
      | Some w \<Rightarrow> c\<lparr>entries := (k, w) # AList.delete k (entries c)\<rparr>)"

definition lru_Clear :: "'v LRUCache \<Rightarrow> 'v LRUCache" where
  "lru_Clear c = c\<lparr>entries := []\<rparr>"

text \<open>\<open>UserProperty\<close>: the runtime properties of a user.\<close>

record UserProperty =
  RWFlag :: int
  RWSplit :: int
  OtherProperty :: int

text \<open>
  Modelled from the spec: \<open>backend.DBInfo\<close> and \<open>backend.Slice\<close>, whose declarations are
  not among the sources. A \<open>DBInfo\<close> is an ordered list of connection pools (one per
  instance, named by its address) and a status map from the pool's index to its status.
  A slice has its name (that of its configuration), its charset and collation, and a
  master, a slave and a statistic-slave group; \<open>sl_closed\<close> records that \<open>Slice.Close\<close>
  has released its pools.
\<close>

record DBInfo =
  ConnPool :: "string list"
  StatusMap :: "(nat \<times> StatusCode) list"

record Slice =
  sl_Name :: string
  sl_charset :: string
  sl_collationID :: nat
  Master :: DBInfo
  Slave :: DBInfo
  StatisticSlave :: DBInfo
  sl_closed :: bool

definition Slice_Close :: "Slice \<Rightarrow> Slice" where
  "Slice_Close s = s\<lparr>sl_closed := True\<rparr>"

text \<open>Opaque values of the collaborators: a parsed IP matcher, a router, a plan.\<close>

datatype IPInfo = IPInfo string

datatype Router = Router string

datatype Plan = Plan string

text \<open>A sequence registered by the sequence manager: slice name, sequence name, key.\<close>

record MySQLSequence =
  seq_slice :: string
  seq_name :: string
  seq_pkName :: string

text \<open>The \<open>Namespace\<close> struct.\<close>

record Namespace =
  name :: string
  allowedDBs :: "(string \<times> bool) list"
  defaultPhyDBs :: "(string \<times> string) list"
  sqls :: "(string \<times> string) list"
  slowSQLTime :: int
  allowips :: "IPInfo list"
  router :: "Router option"
  sequences :: "((string \<times> string) \<times> MySQLSequence) list option"
  slices :: "(string \<times> Slice) list"
  userProperties :: "(string \<times> UserProperty) list"
  defaultCharset :: string
  defaultCollationID :: nat
  openGeneralLog :: bool
  maxSqlExecuteTime :: int
  maxSqlResultSize :: int
  defaultSlice :: string
  downAfterNoAlive :: int
  secondsBehindMaster :: "64 word"
  slowSQLCache :: "string LRUCache"
  errorSQLCache :: "string LRUCache"
  backendSlowSQLCache :: "string LRUCache"
  backendErrorSQLCache :: "string LRUCache"
  planCache :: "Plan LRUCache"
  maxClientConnections :: int
  ns_CheckSelectLock :: bool

subsection \<open>The health probe: \<open>getInstanceStatus\<close>\<close>

text \<open>
  Go's \<open>int\<close> and \<open>time.Duration\<close> are 64-bit signed integers: arithmetic wraps around.
\<close>

definition wrap64 :: "int \<Rightarrow> int" where
  "wrap64 x = (x + 9223372036854775808) mod 18446744073709551616 - 9223372036854775808"

text \<open>
  What one pass of the loop body meets at the pool. \<open>v.Get(ctx)\<close> fails (perhaps still
  handing out a connection), or it hands out a connection on which \<open>Ping\<close> succeeds, or
  \<open>Ping\<close> fails and \<open>Reconnect\<close> succeeds, or both fail. A connection is named by a
  number. The pool is a function from the number of the call to what that call meets.
\<close>

type_synonym PooledConnect = nat

datatype attempt =
    GetFails "PooledConnect option"
  | PingOK PooledConnect
  | ReconnectOK PooledConnect
  | PingReconnectFail PooledConnect

type_synonym ConnectionPool = "nat \<Rightarrow> attempt"

text \<open>
  The effects of the probe, in order: a call of \<open>v.Get\<close> at a time (nanoseconds slept
  since the probe began), a sleep of a duration (nanoseconds), a recycled connection.
\<close>

datatype event = EvGet int | EvSleep int | EvRecycle PooledConnect

text \<open>The local variables of \<open>getInstanceStatus\<close>, the clock and the trace of effects.\<close>

record probe =
  p_sleepTime :: int
  p_err :: bool
  p_conn :: "PooledConnect option"
  p_calls :: nat
  p_clock :: int
  p_trace :: "event list"

text \<open>
  \<open>time.Sleep(time.Duration(sleepTime) * time.Second)\<close>: the duration is computed in
  64 bits; a duration that is not positive returns at once.
\<close>

definition time_Sleep :: "int \<Rightarrow> probe \<Rightarrow> probe" where
  "time_Sleep sleepTime p =
     (let d = wrap64 (sleepTime * 1000000000)
      in p\<lparr>p_clock := p_clock p + max 0 d, p_trace := p_trace p @ [EvSleep d]\<rparr>)"

definition conn_Recycle :: "PooledConnect \<Rightarrow> probe \<Rightarrow> probe" where
  "conn_Recycle c p = p\<lparr>p_trace := p_trace p @ [EvRecycle c]\<rparr>"

definition pool_Get :: "probe \<Rightarrow> probe" where
  "pool_Get p = p\<lparr>p_calls := Suc (p_calls p), p_trace := p_trace p @ [EvGet (p_clock p)]\<rparr>"

text \<open>
  One pass of the loop body at what the pool answers. The result says whether the body
  left the loop by \<open>break\<close>; when it did not, the post statement \<open>sleepTime *= 2\<close> has run.
\<close>

definition post_statement :: "probe \<Rightarrow> probe" where
  "post_statement p = p\<lparr>p_sleepTime := wrap64 (p_sleepTime p * 2)\<rparr>"

fun loop_body :: "attempt \<Rightarrow> probe \<Rightarrow> bool \<times> probe" where
  "loop_body (GetFails None) p =
     (False, post_statement (time_Sleep (p_sleepTime p)
        ((pool_Get p)\<lparr>p_err := True, p_conn := None\<rparr>)))"
| "loop_body (GetFails (Some c)) p =
     (False, post_statement (time_Sleep (p_sleepTime p)
        ((conn_Recycle c ((pool_Get p)\<lparr>p_err := True\<rparr>))\<lparr>p_conn := None\<rparr>)))"
| "loop_body (PingOK c) p =
     (True, (pool_Get p)\<lparr>p_err := False, p_conn := Some c\<rparr>)"
| "loop_body (ReconnectOK c) p =
     (True, (pool_Get p)\<lparr>p_err := False, p_conn := Some c\<rparr>)"
| "loop_body (PingReconnectFail c) p =
     (False, post_statement (time_Sleep (p_sleepTime p)
        (conn_Recycle c ((pool_Get p)\<lparr>p_err := True, p_conn := Some c\<rparr>))))"

text \<open>
  The loop \<open>for ; sleepTime < namespace.downAfterNoAlive; sleepTime *= 2\<close>. It need not
  end: \<open>None\<close> is the loop that runs forever.
\<close>

partial_function (option) backoff_loop :: "int \<Rightarrow> ConnectionPool \<Rightarrow> probe \<Rightarrow> probe option" where
  "backoff_loop d v p =
     (if p_sleepTime p < d then
        (if fst (loop_body (v (p_calls p)) p)
         then Some (snd (loop_body (v (p_calls p)) p))
         else backoff_loop d v (snd (loop_body (v (p_calls p)) p)))
      else Some p)"

declare backoff_loop.simps [code]

definition probe_init :: probe where
  "probe_init = \<lparr>p_sleepTime = 1, p_err = False, p_conn = None, p_calls = 0,
                  p_clock = 0, p_trace = []\<rparr>"

definition probe_status :: "int \<Rightarrow> probe \<Rightarrow> StatusCode" where
  "probe_status d p = (if p_err p \<or> p_sleepTime p \<ge> d then DOWN else UP)"

text \<open>
  \<open>getInstanceStatus\<close>: the status, the connection handed back and the final state of
  the probe (for its trace).
\<close>

definition getInstanceStatus ::
  "Namespace \<Rightarrow> ConnectionPool \<Rightarrow> (StatusCode \<times> PooledConnect option \<times> probe) option" where
  "getInstanceStatus namespace v =
     map_option (\<lambda>p. (probe_status (downAfterNoAlive namespace) p, p_conn p, p))
       (backoff_loop (downAfterNoAlive namespace) v probe_init)"

text \<open>The times at which the probe called the pool, and its sleeps, read off a trace.\<close>

fun attempt_times :: "event list \<Rightarrow> int list" where
  "attempt_times [] = []"
| "attempt_times (EvGet t # es) = t # attempt_times es"
| "attempt_times (e # es) = attempt_times es"

fun sleeps :: "event list \<Rightarrow> int list" where
  "sleeps [] = []"
| "sleeps (EvSleep d # es) = d # sleeps es"
| "sleeps (e # es) = sleeps es"


subsection \<open>The replication-lag check\<close>

text \<open>Errors of the namespace and of its collaborators; a panic of the Go runtime.\<close>

datatype error =
    External string
  | LessThanZero
  | InvalidCharset
  | InvalidCollation
  | DuplicateSlice string
  | NoPhyDB string
  | InvalidDB string
  | SliceNotFound string
  | DownAfterNoAliveNegative
  | Wrapped string error

datatype panic = NilPointerDereference

text \<open>
  A value read from a result row: a \<open>uint64\<close>, a \<open>string\<close>, or a value of another type.
\<close>

datatype col = ColUint64 "64 word" | ColString string | ColOther

text \<open>
  Modelled from the spec: \<open>mysql.Result\<close>, whose declaration is not among the sources.
  The result of a statement has its field names and row access by field name, which may
  fail.
\<close>

record Result =
  Fields :: "string list"
  GetValueByName :: "nat \<Rightarrow> string \<Rightarrow> error + col"

record SlaveStatus =
  SecondsBehindMaster :: "64 word"
  SlaveIORunning :: string
  SlaveSQLRunning :: string
  MasterLogFile :: string
  ReadMasterLogPos :: "64 word"
  RelayMasterLogFile :: string
  ExecMasterLogPos :: "64 word"

definition SlaveStatus_zero :: SlaveStatus where
  "SlaveStatus_zero = \<lparr>SecondsBehindMaster = 0, SlaveIORunning = [], SlaveSQLRunning = [],
     MasterLogFile = [], ReadMasterLogPos = 0, RelayMasterLogFile = [], ExecMasterLogPos = 0\<rparr>"

text \<open>\<open>strings.ToLower\<close> and \<open>strings.ToUpper\<close> on ASCII strings.\<close>

definition lower_char :: "char \<Rightarrow> char" where
  "lower_char c =
     (case map_of (zip ''ABCDEFGHIJKLMNOPQRSTUVWXYZ'' ''abcdefghijklmnopqrstuvwxyz'') c of
        None \<Rightarrow> c
      | Some l \<Rightarrow> l)"

definition upper_char :: "char \<Rightarrow> char" where
  "upper_char c =
     (case map_of (zip ''abcdefghijklmnopqrstuvwxyz'' ''ABCDEFGHIJKLMNOPQRSTUVWXYZ'') c of
        None \<Rightarrow> c
      | Some u \<Rightarrow> u)"

definition ToLower :: "string \<Rightarrow> string" where
  "ToLower s = map lower_char s"

definition ToUpper :: "string \<Rightarrow> string" where
  "ToUpper s = map upper_char s"

text \<open>
  \<open>strings.TrimSpace\<close> removes all leading and trailing white space, as defined by
  Unicode, from a string, which is a sequence of bytes read as UTF-8. The white-space
  code points are U+0009 to U+000D, U+0020, U+0085, U+00A0, U+1680, U+2000 to U+200A,
  U+2028, U+2029, U+202F, U+205F and U+3000; \<open>white_space\<close> lists their UTF-8
  encodings. A code point is decoded at a position exactly when its encoding stands
  there (bytes that are not valid UTF-8 decode to U+FFFD, which is not white space),
  so trimming on the left removes encodings of white space from the front for as long
  as one stands there, and trimming on the right does the same from the back.
\<close>

definition white_space :: "string list" where
  "white_space =
     [[CHR 0x09], [CHR 0x0A], [CHR 0x0B], [CHR 0x0C], [CHR 0x0D], [CHR 0x20],
      [CHR 0xC2, CHR 0x85], [CHR 0xC2, CHR 0xA0],
      [CHR 0xE1, CHR 0x9A, CHR 0x80],
      [CHR 0xE2, CHR 0x80, CHR 0x80], [CHR 0xE2, CHR 0x80, CHR 0x81],
      [CHR 0xE2, CHR 0x80, CHR 0x82], [CHR 0xE2, CHR 0x80, CHR 0x83],
      [CHR 0xE2, CHR 0x80, CHR 0x84], [CHR 0xE2, CHR 0x80, CHR 0x85],
      [CHR 0xE2, CHR 0x80, CHR 0x86], [CHR 0xE2, CHR 0x80, CHR 0x87],
      [CHR 0xE2, CHR 0x80, CHR 0x88], [CHR 0xE2, CHR 0x80, CHR 0x89],
      [CHR 0xE2, CHR 0x80, CHR 0x8A],
      [CHR 0xE2, CHR 0x80, CHR 0xA8], [CHR 0xE2, CHR 0x80, CHR 0xA9],
      [CHR 0xE2, CHR 0x80, CHR 0xAF],
      [CHR 0xE2, CHR 0x81, CHR 0x9F],
      [CHR 0xE3, CHR 0x80, CHR 0x80]]"

definition starts_with :: "string \<Rightarrow> string \<Rightarrow> bool" where
  "starts_with s w = (w \<noteq> [] \<and> take (length w) s = w)"

text \<open>\<open>strip ws s\<close>: \<open>s\<close> without the members of \<open>ws\<close> that stand, one after another, at its front.\<close>

function strip :: "string list \<Rightarrow> string \<Rightarrow> string" where
  "strip ws s =
     (case find (starts_with s) ws of
        None \<Rightarrow> s
      | Some w \<Rightarrow> strip ws (drop (length w) s))"
  by pat_completeness auto
termination
proof (relation "measure (\<lambda>(ws, s). length s)")
  show "wf (measure (\<lambda>(ws, s). length s))" by simp
next
  fix ws :: "string list" and s w :: string
  assume "find (starts_with s) ws = Some w"
  then have "starts_with s w" by (auto simp: find_Some_iff)
  then have "w \<noteq> []" and "take (length w) s = w" by (simp_all add: starts_with_def)
  then have "0 < length w" and "s \<noteq> []" by auto
  then show "((ws, drop (length w) s), (ws, s)) \<in> measure (\<lambda>(ws, s). length s)" by simp
qed

declare strip.simps [simp del]

definition TrimLeft :: "string \<Rightarrow> string" where
  "TrimLeft s = strip white_space s"

definition TrimRight :: "string \<Rightarrow> string" where
  "TrimRight s = rev (strip (map rev white_space) (rev s))"

definition TrimSpace :: "string \<Rightarrow> string" where
  "TrimSpace s = TrimRight (TrimLeft s)"

text \<open>The \<open>switch\<close> of \<open>GetSlaveStatus\<close> on the lower-cased field name.\<close>

definition set_field :: "string \<Rightarrow> col \<Rightarrow> SlaveStatus \<Rightarrow> SlaveStatus" where
  "set_field fieldName c st =
     (if ToLower fieldName = ''seconds_behind_master'' then
        st\<lparr>SecondsBehindMaster := (case c of ColUint64 n \<Rightarrow> n | _ \<Rightarrow> 0)\<rparr>
      else if ToLower fieldName = ''slave_io_running'' then
        st\<lparr>SlaveIORunning := (case c of ColString s \<Rightarrow> s | _ \<Rightarrow> ''No'')\<rparr>
      else if ToLower fieldName = ''slave_sql_running'' then
        st\<lparr>SlaveSQLRunning := (case c of ColString s \<Rightarrow> s | _ \<Rightarrow> ''No'')\<rparr>
      else if ToLower fieldName = ''master_log_file'' then
        st\<lparr>MasterLogFile := (case c of ColString s \<Rightarrow> s | _ \<Rightarrow> [])\<rparr>
      else if ToLower fieldName = ''read_master_log_pos'' then
        st\<lparr>ReadMasterLogPos := (case c of ColUint64 n \<Rightarrow> n | _ \<Rightarrow> 0)\<rparr>
      else if ToLower fieldName = ''relay_master_log_file'' then
        st\<lparr>RelayMasterLogFile := (case c of ColString s \<Rightarrow> s | _ \<Rightarrow> [])\<rparr>
      else if ToLower fieldName = ''exec_master_log_pos'' then
        st\<lparr>ExecMasterLogPos := (case c of ColUint64 n \<Rightarrow> n | _ \<Rightarrow> 0)\<rparr>
      else st)"

text \<open>
  The loop of \<open>GetSlaveStatus\<close> over \<open>res.Fields\<close>: a failing row access leaves the loop
  with its error.
\<close>

fun fill_fields :: "Result \<Rightarrow> string list \<Rightarrow> SlaveStatus \<Rightarrow> SlaveStatus \<times> error option" where
  "fill_fields res [] st = (st, None)"
| "fill_fields res (fieldName # fs) st =
     (case GetValueByName res 0 fieldName of
        Inl e \<Rightarrow> (st, Some e)
      | Inr c \<Rightarrow> fill_fields res fs (set_field fieldName c st))"

text \<open>
  \<open>GetSlaveStatus\<close>. The connection is an interface value: \<open>None\<close> is \<open>nil\<close>, and calling
  \<open>Execute\<close> on it panics. \<open>exec\<close> is what the backend answers to \<open>show slave status;\<close>.
\<close>

definition GetSlaveStatus ::
  "(PooledConnect \<Rightarrow> error + Result) \<Rightarrow> PooledConnect option \<Rightarrow> panic + (SlaveStatus \<times> error option)" where
  "GetSlaveStatus exec conn =
     (case conn of
        None \<Rightarrow> Inl NilPointerDereference
      | Some c \<Rightarrow>
          (case exec c of
             Inl e \<Rightarrow> Inr (SlaveStatus_zero, Some e)
           | Inr res \<Rightarrow> Inr (fill_fields res (Fields res) SlaveStatus_zero)))"

definition slaveIsLagBehand ::
  "(PooledConnect \<Rightarrow> error + Result) \<Rightarrow> PooledConnect option \<Rightarrow> Namespace \<Rightarrow> panic + (bool \<times> error option)" where
  "slaveIsLagBehand exec conn namespace =
     (case GetSlaveStatus exec conn of
        Inl p \<Rightarrow> Inl p
      | Inr (slaveStatus, Some e) \<Rightarrow> Inr (False, Some e)
      | Inr (slaveStatus, None) \<Rightarrow>
          (if SecondsBehindMaster slaveStatus > secondsBehindMaster namespace then Inr (True, None)
           else if SlaveIORunning slaveStatus \<noteq> ''Yes'' then Inr (True, None)
           else if SlaveSQLRunning slaveStatus \<noteq> ''Yes'' then Inr (True, None)
           else Inr (False, None)))"

definition shouldCheckSlaveDataSyncStatus :: "Namespace \<Rightarrow> StatusCode \<Rightarrow> Slice \<Rightarrow> bool \<Rightarrow> bool" where
  "shouldCheckSlaveDataSyncStatus namespace crruentStatus sl isMaster =
     (if isMaster \<or> crruentStatus = UP then False
      else if map_of (StatusMap (Master sl)) 0 = Some DOWN then False
      else secondsBehindMaster namespace \<noteq> 0)"

subsection \<open>The supervisor: \<open>doCheckSlice\<close>\<close>

text \<open>The pool group a supervisor worker watches.\<close>

datatype role = RSlave | RStatisticSlave | RMaster

fun group_of :: "role \<Rightarrow> Slice \<Rightarrow> DBInfo" where
  "group_of RSlave s = Slave s"
| "group_of RStatisticSlave s = StatisticSlave s"
| "group_of RMaster s = Master s"

fun group_update :: "role \<Rightarrow> DBInfo \<Rightarrow> Slice \<Rightarrow> Slice" where
  "group_update RSlave g s = s\<lparr>Slave := g\<rparr>"
| "group_update RStatisticSlave g s = s\<lparr>StatisticSlave := g\<rparr>"
| "group_update RMaster g s = s\<lparr>Master := g\<rparr>"

text \<open>
  The backends, as the probe meets them: how the pool of an address answers the calls
  of one probe, and what a connection answers to \<open>show slave status;\<close>.
\<close>

record backends =
  pool_of :: "string \<Rightarrow> ConnectionPool"
  execute :: "PooledConnect \<Rightarrow> error + Result"

text \<open>
  The body of \<open>for idx, v := range slaveInfo.ConnPool\<close> in \<open>checkStatus\<close>: probe the pool,
  run the lag check when \<open>shouldCheckSlaveDataSyncStatus\<close> says so, recycle the
  connection, store the status. The result is the slice with the status stored (the
  recycling does not show in it), or the panic of the lag check; \<open>None\<close>: the probe
  never returns.
\<close>

definition check_pool ::
  "backends \<Rightarrow> Namespace \<Rightarrow> role \<Rightarrow> nat \<Rightarrow> string \<Rightarrow> Slice \<Rightarrow> (panic + Slice) option" where
  "check_pool b namespace r idx v sl =
     (case getInstanceStatus namespace (pool_of b v) of
        None \<Rightarrow> None
      | Some (status, conn, p) \<Rightarrow>
          (let checked =
             (if shouldCheckSlaveDataSyncStatus namespace status sl (r = RMaster) then
                (case slaveIsLagBehand (execute b) conn namespace of
                   Inl pn \<Rightarrow> Inl pn
                 | Inr (lag, e) \<Rightarrow> Inr (if lag then DOWN else status))
              else Inr status)
           in case checked of
                Inl pn \<Rightarrow> Some (Inl pn)
              | Inr status' \<Rightarrow>
                  Some (Inr (group_update r
                    ((group_of r sl)\<lparr>StatusMap :=
                        AList.update idx status' (StatusMap (group_of r sl))\<rparr>) sl))))"

text \<open>One pass of a worker over its pool group, in the order of the pools.\<close>

fun check_pools ::
  "backends \<Rightarrow> Namespace \<Rightarrow> role \<Rightarrow> (nat \<times> string) list \<Rightarrow> Slice \<Rightarrow> (panic + Slice) option" where
  "check_pools b namespace r [] sl = Some (Inr sl)"
| "check_pools b namespace r ((idx, v) # vs) sl =
     (case check_pool b namespace r idx v sl of
        None \<Rightarrow> None
      | Some (Inl pn) \<Rightarrow> Some (Inl pn)
      | Some (Inr sl') \<Rightarrow> check_pools b namespace r vs sl')"

text \<open>
  One turn of the endless loop of \<open>checkStatus\<close>: when the context is done the worker
  returns; otherwise it checks its pools (and then sleeps two seconds and goes on).
\<close>

datatype turn = Returned | Goes_on Slice | Panicked panic

definition checkStatus_turn ::
  "bool \<Rightarrow> backends \<Rightarrow> Namespace \<Rightarrow> role \<Rightarrow> Slice \<Rightarrow> turn option" where
  "checkStatus_turn ctx_done b namespace r sl =
     (if ctx_done then Some Returned
      else
        (case check_pools b namespace r
                (zip [0..<length (ConnPool (group_of r sl))] (ConnPool (group_of r sl))) sl of
           None \<Rightarrow> None
         | Some (Inl pn) \<Rightarrow> Some (Panicked pn)
         | Some (Inr sl') \<Rightarrow> Some (Goes_on sl')))"


subsection \<open>Configuration and collaborators\<close>

text \<open>
  Modelled from the spec: the configuration record \<open>models.Namespace\<close> and its parts,
  whose declarations are not among the sources; the fields are those the constructor
  reads.
\<close>

record User =
  UserName :: string
  u_RWFlag :: int
  u_RWSplit :: int
  u_OtherProperty :: int

record SliceConfig =
  sc_Name :: string
  sc_Master :: string
  sc_Slaves :: "string list"
  sc_StatisticSlaves :: "string list"

record GlobalSequence =
  gs_SliceName :: string
  gs_DB :: string
  gs_Table :: string
  gs_PKName :: string

record NamespaceConfig =
  Name :: string
  OpenGeneralLog :: bool
  SlowSQLTime :: string
  MaxSqlExecuteTime :: int
  MaxSqlResultSize :: int
  AllowedDBS :: "(string \<times> bool) list"
  DefaultPhyDBS :: "(string \<times> string) list"
  AllowedIP :: "string list"
  DefaultCharset :: string
  DefaultCollation :: string
  Users :: "User list"
  Slices :: "SliceConfig list"
  GlobalSequences :: "GlobalSequence list"
  BlackSQL :: "string list"
  MaxClientConnections :: int
  DownAfterNoAlive :: int
  cfg_SecondsBehindMaster :: "64 word"
  CheckSelectLock :: bool
  DefaultSlice :: string

text \<open>
  The functions, tables and constants of other packages that the namespace calls, taken
  as parameters: the fingerprint and its md5 (\<open>mysql\<close>), \<open>strconv.ParseInt(str, 10, 64)\<close>,
  \<open>util.ParseIPInfo\<close>, the charset tables and \<open>mysql.VerifyCharset\<close>, the parsers of a
  slice's endpoints (\<open>backend\<close>), \<open>router.NewRouter\<close>, and the flag values of \<open>models\<close>.
\<close>

record collaborators =
  GetFingerprint :: "string \<Rightarrow> string"
  GetMd5 :: "string \<Rightarrow> string"
  ParseInt :: "string \<Rightarrow> error + int"
  ParseIPInfo :: "string \<Rightarrow> error + IPInfo"
  mysql_DefaultCharset :: string
  mysql_DefaultCollationID :: nat
  CharsetIds :: "(string \<times> nat) list"
  CollationNames :: "(string \<times> nat) list"
  VerifyCharset :: "string \<Rightarrow> string \<Rightarrow> error option"
  ParseMaster :: "string \<Rightarrow> error + DBInfo"
  ParseSlave :: "string list \<Rightarrow> error + DBInfo"
  NewRouter :: "NamespaceConfig \<Rightarrow> error + Router"
  ReadWrite :: int
  ReadWriteSplit :: int
  StatisticUser :: int

subsection \<open>Parsing the configuration\<close>

fun parseBlackSqls_loop ::
  "collaborators \<Rightarrow> string list \<Rightarrow> (string \<times> string) list \<Rightarrow> (string \<times> string) list" where
  "parseBlackSqls_loop x [] sqlMap = sqlMap"
| "parseBlackSqls_loop x (sql # rest) sqlMap =
     (if length (TrimSpace sql) = 0 then parseBlackSqls_loop x rest sqlMap
      else parseBlackSqls_loop x rest
             (AList.update (GetMd5 x (GetFingerprint x (TrimSpace sql)))
                (GetFingerprint x (TrimSpace sql)) sqlMap))"

definition parseBlackSqls :: "collaborators \<Rightarrow> string list \<Rightarrow> (string \<times> string) list" where
  "parseBlackSqls x sqls' = parseBlackSqls_loop x sqls' []"

definition parseSlowSQLTime :: "collaborators \<Rightarrow> string \<Rightarrow> error + int" where
  "parseSlowSQLTime x str =
     (if str = [] then Inr defaultSlowSQLTime
      else
        (case ParseInt x str of
           Inl e \<Rightarrow> Inl e
         | Inr t \<Rightarrow> if t < 0 then Inl LessThanZero else Inr t))"

fun parseAllowIps_loop :: "collaborators \<Rightarrow> string list \<Rightarrow> IPInfo list \<Rightarrow> error + IPInfo list" where
  "parseAllowIps_loop x [] allowips' = Inr allowips'"
| "parseAllowIps_loop x (ipStr # rest) allowips' =
     (if length (TrimSpace ipStr) = 0 then parseAllowIps_loop x rest allowips'
      else
        (case ParseIPInfo x (TrimSpace ipStr) of
           Inl e \<Rightarrow> Inl e
         | Inr ipInfo \<Rightarrow> parseAllowIps_loop x rest (allowips' @ [ipInfo])))"

definition parseAllowIps :: "collaborators \<Rightarrow> string list \<Rightarrow> error + IPInfo list" where
  "parseAllowIps x allowedIP = parseAllowIps_loop x allowedIP []"

definition parseCharset :: "collaborators \<Rightarrow> string \<Rightarrow> string \<Rightarrow> error + (string \<times> nat)" where
  "parseCharset x charset collation =
     (if charset = [] \<and> collation = [] then
        Inr (mysql_DefaultCharset x, mysql_DefaultCollationID x)
      else if collation = [] then
        (case map_of (CharsetIds x) charset of
           None \<Rightarrow> Inl InvalidCharset
         | Some collationID \<Rightarrow> Inr (charset, collationID))
      else
        (case VerifyCharset x charset collation of
           Some e \<Rightarrow> Inl e
         | None \<Rightarrow>
             (case map_of (CollationNames x) collation of
                None \<Rightarrow> Inl InvalidCollation
              | Some collationID \<Rightarrow> Inr (charset, collationID))))"

text \<open>
  \<open>parseDefaultPhyDB\<close>: with no configured physical names, every allowed DB maps to
  itself; otherwise every allowed DB must have a configured physical name.
\<close>

fun identity_loop :: "(string \<times> bool) list \<Rightarrow> (string \<times> string) list \<Rightarrow> (string \<times> string) list" where
  "identity_loop [] result = result"
| "identity_loop ((db, allowed) # rest) result = identity_loop rest (AList.update db db result)"

fun logic_loop :: "(string \<times> string) list \<Rightarrow> (string \<times> bool) list \<Rightarrow> error option" where
  "logic_loop defaultPhyDBs' [] = None"
| "logic_loop defaultPhyDBs' ((db, allowed) # rest) =
     (case map_of defaultPhyDBs' db of
        None \<Rightarrow> Some (NoPhyDB db)
      | Some phyDB \<Rightarrow> logic_loop defaultPhyDBs' rest)"

definition parseDefaultPhyDB ::
  "(string \<times> string) list \<Rightarrow> (string \<times> bool) list \<Rightarrow> error + (string \<times> string) list" where
  "parseDefaultPhyDB defaultPhyDBs' allowedDBs' =
     (if length defaultPhyDBs' = 0 then Inr (identity_loop allowedDBs' [])
      else
        (case logic_loop defaultPhyDBs' allowedDBs' of
           Some e \<Rightarrow> Inl e
         | None \<Rightarrow> Inr defaultPhyDBs'))"

text \<open>The two loops of the constructor that trim the keys of the configured maps.\<close>

fun trim_allowedDBs :: "(string \<times> bool) list \<Rightarrow> (string \<times> bool) list \<Rightarrow> (string \<times> bool) list" where
  "trim_allowedDBs [] allowDBs = allowDBs"
| "trim_allowedDBs ((db, allowed) # rest) allowDBs =
     trim_allowedDBs rest (AList.update (TrimSpace db) allowed allowDBs)"

fun trim_defaultPhyDBs ::
  "(string \<times> string) list \<Rightarrow> (string \<times> string) list \<Rightarrow> (string \<times> string) list" where
  "trim_defaultPhyDBs [] defaultPhyDBs' = defaultPhyDBs'"
| "trim_defaultPhyDBs ((db, phyDB) # rest) defaultPhyDBs' =
     trim_defaultPhyDBs rest (AList.update (TrimSpace db) (TrimSpace phyDB) defaultPhyDBs')"

fun init_userProperties ::
  "User list \<Rightarrow> (string \<times> UserProperty) list \<Rightarrow> (string \<times> UserProperty) list" where
  "init_userProperties [] ups = ups"
| "init_userProperties (user # rest) ups =
     init_userProperties rest
       (AList.update (UserName user)
          \<lparr>RWFlag = u_RWFlag user, RWSplit = u_RWSplit user,
            OtherProperty = u_OtherProperty user\<rparr> ups)"

text \<open>\<open>parseSlice\<close> and \<open>parseSlices\<close>.\<close>

definition parseSlice :: "collaborators \<Rightarrow> SliceConfig \<Rightarrow> string \<Rightarrow> nat \<Rightarrow> error + Slice" where
  "parseSlice x cfg charset collationID =
     (case ParseMaster x (sc_Master cfg) of
        Inl e \<Rightarrow> Inl e
      | Inr masterInfo \<Rightarrow>
          (case ParseSlave x (sc_Slaves cfg) of
             Inl e \<Rightarrow> Inl e
           | Inr slaveInfo \<Rightarrow>
               (case ParseSlave x (sc_StatisticSlaves cfg) of
                  Inl e \<Rightarrow> Inl e
                | Inr statisticSalve \<Rightarrow>
                    Inr \<lparr>sl_Name = sc_Name cfg, sl_charset = charset,
                         sl_collationID = collationID, Master = masterInfo,
                         Slave = slaveInfo, StatisticSlave = statisticSalve,
                         sl_closed = False\<rparr>)))"

fun parseSlices_loop ::
  "collaborators \<Rightarrow> SliceConfig list \<Rightarrow> string \<Rightarrow> nat \<Rightarrow> (string \<times> Slice) list
     \<Rightarrow> error + (string \<times> Slice) list" where
  "parseSlices_loop x [] charset collationID slices' = Inr slices'"
| "parseSlices_loop x (v # rest) charset collationID slices' =
     (case map_of slices' (TrimSpace (sc_Name v)) of
        Some s \<Rightarrow> Inl (DuplicateSlice (TrimSpace (sc_Name v)))
      | None \<Rightarrow>
          (case parseSlice x (v\<lparr>sc_Name := TrimSpace (sc_Name v)\<rparr>) charset collationID of
             Inl e \<Rightarrow> Inl e
           | Inr s \<Rightarrow>
               parseSlices_loop x rest charset collationID
                 (AList.update (TrimSpace (sc_Name v)) s slices')))"

definition parseSlices ::
  "collaborators \<Rightarrow> SliceConfig list \<Rightarrow> string \<Rightarrow> nat \<Rightarrow> error + (string \<times> Slice) list" where
  "parseSlices x cfgSlices charset collationID =
     parseSlices_loop x cfgSlices charset collationID []"

text \<open>
  \<open>parseSlices\<close> trims the name of each slice in the configuration itself, which the
  later steps of the constructor read.
\<close>

definition trimmed_slice_names :: "NamespaceConfig \<Rightarrow> NamespaceConfig" where
  "trimmed_slice_names cfg =
     cfg\<lparr>Slices := map (\<lambda>v. v\<lparr>sc_Name := TrimSpace (sc_Name v)\<rparr>) (Slices cfg)\<rparr>"

subsection \<open>Starting the supervisors: \<open>checkSlicesStatus\<close>\<close>

text \<open>
  The context made by \<open>checkSlicesStatus\<close> (\<open>ctx_done\<close>: its \<open>cancel\<close> has been called) and
  the worker goroutines started under it, each named by its slice and its pool group.
\<close>

record supervisors =
  ctx_done :: bool
  workers :: "(string \<times> role) list"

definition doCheckSlice :: "Slice \<Rightarrow> supervisors \<Rightarrow> supervisors \<times> error option" where
  "doCheckSlice sl g =
     (g\<lparr>workers := workers g @
        [(sl_Name sl, RSlave), (sl_Name sl, RStatisticSlave), (sl_Name sl, RMaster)]\<rparr>, None)"

fun checkSlicesStatus_loop :: "(string \<times> Slice) list \<Rightarrow> supervisors \<Rightarrow> supervisors \<times> error option" where
  "checkSlicesStatus_loop [] g = (g, None)"
| "checkSlicesStatus_loop ((k, v) # rest) g =
     (case doCheckSlice v g of
        (g', Some e) \<Rightarrow> (g'\<lparr>ctx_done := True\<rparr>, Some e)
      | (g', None) \<Rightarrow> checkSlicesStatus_loop rest g')"

definition checkSlicesStatus :: "(string \<times> Slice) list \<Rightarrow> supervisors \<times> error option" where
  "checkSlicesStatus slices' = checkSlicesStatus_loop slices' \<lparr>ctx_done = False, workers = []\<rparr>"

subsection \<open>\<open>Close\<close>\<close>

text \<open>
  \<open>Close\<close> sleeps when \<open>delay\<close> is set, closes every slice and clears the four
  fingerprint caches. The result is the time slept (seconds) and the namespace.
\<close>

definition Close :: "bool \<Rightarrow> Namespace \<Rightarrow> int \<times> Namespace" where
  "Close delay n =
     (if delay then namespaceDelayClose else 0,
      n\<lparr>slices := map (\<lambda>(k, s). (k, Slice_Close s)) (slices n),
        slowSQLCache := lru_Clear (slowSQLCache n),
        errorSQLCache := lru_Clear (errorSQLCache n),
        backendSlowSQLCache := lru_Clear (backendSlowSQLCache n),
        backendErrorSQLCache := lru_Clear (backendErrorSQLCache n)\<rparr>)"


subsection \<open>\<open>NewNamespace\<close>\<close>

text \<open>
  How the body of \<open>NewNamespace\<close> ends: the struct behind the pointer \<open>namespace\<close>, the
  value of the local variable \<open>err\<close> (which the deferred function reads), the error the
  \<open>return\<close> statement gives back (\<open>None\<close>: it returns the namespace and \<open>nil\<close>), and the
  supervisors started, if \<open>checkSlicesStatus\<close> was reached.
\<close>

record construction =
  c_namespace :: Namespace
  c_err :: "error option"
  c_ret :: "error option"
  c_supervisors :: "supervisors option"

definition stop :: "Namespace \<Rightarrow> error option \<Rightarrow> error \<Rightarrow> supervisors option \<Rightarrow> construction" where
  "stop n errv e g = \<lparr>c_namespace = n, c_err = errv, c_ret = Some e, c_supervisors = g\<rparr>"

text \<open>
  The steps of the body are given last to first, each passing on to the one after it
  in the source. The last step sets \<open>maxClientConnections\<close>, \<open>downAfterNoAlive\<close>,
  \<open>secondsBehindMaster\<close> and \<open>CheckSelectLock\<close>.
\<close>

definition set_limits :: "NamespaceConfig \<Rightarrow> supervisors \<Rightarrow> Namespace \<Rightarrow> construction" where
  "set_limits cfg g n =
     (if DownAfterNoAlive cfg < 0 then
        stop (n\<lparr>maxClientConnections :=
                   (if maxClientConnections n \<le> 0 then defaultMaxClientConnections
                    else MaxClientConnections cfg),
                 downAfterNoAlive := DownAfterNoAlive cfg\<rparr>)
          None DownAfterNoAliveNegative (Some g)
      else
        \<lparr>c_namespace =
           n\<lparr>maxClientConnections :=
                (if maxClientConnections n \<le> 0 then defaultMaxClientConnections
                 else MaxClientConnections cfg),
              downAfterNoAlive :=
                (if DownAfterNoAlive cfg = 0 then defaultTimeAfterNoAlive
                 else DownAfterNoAlive cfg),
              secondsBehindMaster := cfg_SecondsBehindMaster cfg,
              ns_CheckSelectLock := CheckSelectLock cfg\<rparr>,
         c_err = None, c_ret = None, c_supervisors = Some g\<rparr>)"

text \<open>
  The global sequences: each must name a slice of the namespace. The registry of the
  sequence manager is keyed by the DB and the table.
\<close>

fun init_sequences_loop ::
  "(string \<times> Slice) list \<Rightarrow> GlobalSequence list \<Rightarrow> ((string \<times> string) \<times> MySQLSequence) list
     \<Rightarrow> error + ((string \<times> string) \<times> MySQLSequence) list" where
  "init_sequences_loop slices' [] sequences' = Inr sequences'"
| "init_sequences_loop slices' (v # rest) sequences' =
     (case map_of slices' (gs_SliceName v) of
        None \<Rightarrow> Inl (SliceNotFound (gs_SliceName v))
      | Some globalSequenceSlice \<Rightarrow>
          init_sequences_loop slices' rest
            (AList.update (gs_DB v, gs_Table v)
               \<lparr>seq_slice = gs_SliceName v,
                 seq_name = ToUpper (gs_DB v) @ ''.'' @ ToUpper (gs_Table v),
                 seq_pkName = gs_PKName v\<rparr> sequences'))"

definition init_sequences :: "NamespaceConfig \<Rightarrow> supervisors \<Rightarrow> Namespace \<Rightarrow> construction" where
  "init_sequences cfg g n =
     (case init_sequences_loop (slices n) (GlobalSequences cfg) [] of
        Inl e \<Rightarrow> stop n None e (Some g)
      | Inr sequences' \<Rightarrow> set_limits cfg g (n\<lparr>sequences := Some sequences'\<rparr>))"

definition init_router ::
  "collaborators \<Rightarrow> NamespaceConfig \<Rightarrow> supervisors \<Rightarrow> Namespace \<Rightarrow> construction" where
  "init_router x cfg g n =
     (case NewRouter x (trimmed_slice_names cfg) of
        Inl e \<Rightarrow> stop n (Some e) (Wrapped ''init router of namespace failed'' e) (Some g)
      | Inr router' \<Rightarrow> init_sequences cfg g (n\<lparr>router := Some router'\<rparr>))"

definition init_slices :: "collaborators \<Rightarrow> NamespaceConfig \<Rightarrow> Namespace \<Rightarrow> construction" where
  "init_slices x cfg n =
     (case parseSlices x (Slices cfg) (defaultCharset n) (defaultCollationID n) of
        Inl e \<Rightarrow> stop n (Some e) (Wrapped ''init slices of namespace failed'' e) None
      | Inr slices' \<Rightarrow>
          (case checkSlicesStatus slices' of
             (g, Some e) \<Rightarrow>
               stop (n\<lparr>slices := slices'\<rparr>) (Some e)
                 (Wrapped ''check salve in slices of namespace failed'' e) (Some g)
           | (g, None) \<Rightarrow> init_router x cfg g (n\<lparr>slices := slices'\<rparr>)))"

definition init_charset_users ::
  "collaborators \<Rightarrow> NamespaceConfig \<Rightarrow> Namespace \<Rightarrow> construction" where
  "init_charset_users x cfg n =
     (case parseCharset x (DefaultCharset cfg) (DefaultCollation cfg) of
        Inl e \<Rightarrow> stop n (Some e) (Wrapped ''parse charset error'' e) None
      | Inr (charset, collationID) \<Rightarrow>
          init_slices x cfg
            (n\<lparr>defaultCharset := charset, defaultCollationID := collationID,
               userProperties := init_userProperties (Users cfg) (userProperties n)\<rparr>))"

definition init_allow_ip :: "collaborators \<Rightarrow> NamespaceConfig \<Rightarrow> Namespace \<Rightarrow> construction" where
  "init_allow_ip x cfg n =
     (case parseAllowIps x (AllowedIP cfg) of
        Inl e \<Rightarrow> stop n (Some e) (Wrapped ''parse allowips error'' e) None
      | Inr allowips' \<Rightarrow> init_charset_users x cfg (n\<lparr>allowips := allowips'\<rparr>))"

definition init_dbs :: "collaborators \<Rightarrow> NamespaceConfig \<Rightarrow> Namespace \<Rightarrow> construction" where
  "init_dbs x cfg n =
     (case parseDefaultPhyDB (trim_defaultPhyDBs (DefaultPhyDBS cfg) [])
             (trim_allowedDBs (AllowedDBS cfg) []) of
        Inl e \<Rightarrow>
          stop (n\<lparr>allowedDBs := trim_allowedDBs (AllowedDBS cfg) []\<rparr>) (Some e)
            (Wrapped ''parse defaultPhyDBs error'' e) None
      | Inr defaultPhyDBs' \<Rightarrow>
          init_allow_ip x cfg
            (n\<lparr>allowedDBs := trim_allowedDBs (AllowedDBS cfg) [],
               defaultPhyDBs := defaultPhyDBs'\<rparr>))"

definition init_slow_sql :: "collaborators \<Rightarrow> NamespaceConfig \<Rightarrow> Namespace \<Rightarrow> construction" where
  "init_slow_sql x cfg n =
     (case parseSlowSQLTime x (SlowSQLTime cfg) of
        Inl e \<Rightarrow> stop n (Some e) (Wrapped ''parse slowSQLTime error'' e) None
      | Inr t \<Rightarrow>
          init_dbs x cfg
            (n\<lparr>slowSQLTime := t,
               maxSqlExecuteTime :=
                 (if MaxSqlExecuteTime cfg \<le> 0 then defaultMaxSqlExecuteTime
                  else MaxSqlExecuteTime cfg),
               maxSqlResultSize :=
                 (if MaxSqlResultSize cfg \<le> 0 \<and> MaxSqlResultSize cfg \<noteq> - 1
                  then defaultMaxSqlResultSize else MaxSqlResultSize cfg)\<rparr>))"

text \<open>The struct literal the constructor starts from; every other field has its zero value.\<close>

definition new_struct :: "NamespaceConfig \<Rightarrow> Namespace" where
  "new_struct cfg =
     \<lparr>name = Name cfg, allowedDBs = [], defaultPhyDBs = [], sqls = [], slowSQLTime = 0,
      allowips = [], router = None, sequences = None, slices = [], userProperties = [],
      defaultCharset = [], defaultCollationID = 0, openGeneralLog = OpenGeneralLog cfg,
      maxSqlExecuteTime = 0, maxSqlResultSize = 0, defaultSlice = DefaultSlice cfg,
      downAfterNoAlive = 0, secondsBehindMaster = 0,
      slowSQLCache = NewLRUCache defaultSQLCacheCapacity,
      errorSQLCache = NewLRUCache defaultSQLCacheCapacity,
      backendSlowSQLCache = NewLRUCache defaultSQLCacheCapacity,
      backendErrorSQLCache = NewLRUCache defaultSQLCacheCapacity,
      planCache = NewLRUCache defaultPlanCacheCapacity,
      maxClientConnections = 0, ns_CheckSelectLock = False\<rparr>"

definition NewNamespace_body :: "collaborators \<Rightarrow> NamespaceConfig \<Rightarrow> construction" where
  "NewNamespace_body x cfg =
     init_slow_sql x cfg ((new_struct cfg)\<lparr>sqls := parseBlackSqls x (BlackSQL cfg)\<rparr>)"

text \<open>
  What a call of \<open>NewNamespace\<close> gives and does: the returned pair (an error with a
  \<open>nil\<close> pointer, or the namespace), the supervisors it started, and, when the deferred
  function found \<open>err\<close> set and called \<open>Close(false)\<close>, the struct after that call.
\<close>

record created =
  returned :: "error + Namespace"
  deferred_Close :: "Namespace option"
  started :: "supervisors option"

definition NewNamespace :: "collaborators \<Rightarrow> NamespaceConfig \<Rightarrow> created" where
  "NewNamespace x cfg =
     \<lparr>returned =
        (case c_ret (NewNamespace_body x cfg) of
           Some e \<Rightarrow> Inl e
         | None \<Rightarrow> Inr (c_namespace (NewNamespace_body x cfg))),
      deferred_Close =
        (case c_err (NewNamespace_body x cfg) of
           Some e \<Rightarrow> Some (snd (Close False (c_namespace (NewNamespace_body x cfg))))
         | None \<Rightarrow> None),
      started = c_supervisors (NewNamespace_body x cfg)\<rparr>"

subsection \<open>Policy lookups and cache operations\<close>

text \<open>
  The user predicates index the map and read a field through the pointer found there;
  for a user that is not in the map the pointer is \<open>nil\<close> and the read panics.
\<close>

definition IsAllowWrite :: "collaborators \<Rightarrow> Namespace \<Rightarrow> string \<Rightarrow> panic + bool" where
  "IsAllowWrite x n user =
     (case map_of (userProperties n) user of
        None \<Rightarrow> Inl NilPointerDereference
      | Some up \<Rightarrow> Inr (RWFlag up = ReadWrite x))"

definition IsRWSplit :: "collaborators \<Rightarrow> Namespace \<Rightarrow> string \<Rightarrow> panic + bool" where
  "IsRWSplit x n user =
     (case map_of (userProperties n) user of
        None \<Rightarrow> Inl NilPointerDereference
      | Some up \<Rightarrow> Inr (RWSplit up = ReadWriteSplit x))"

definition IsStatisticUser :: "collaborators \<Rightarrow> Namespace \<Rightarrow> string \<Rightarrow> panic + bool" where
  "IsStatisticUser x n user =
     (case map_of (userProperties n) user of
        None \<Rightarrow> Inl NilPointerDereference
      | Some up \<Rightarrow> Inr (OtherProperty up = StatisticUser x))"

definition GetUserProperty :: "Namespace \<Rightarrow> string \<Rightarrow> panic + int" where
  "GetUserProperty n user =
     (case map_of (userProperties n) user of
        None \<Rightarrow> Inl NilPointerDereference
      | Some up \<Rightarrow> Inr (OtherProperty up))"

text \<open>
  \<open>IsSQLAllowed\<close>: the request context is a map from keys to values; the result is the
  answer and the context after the call.
\<close>

definition IsSQLAllowed ::
  "collaborators \<Rightarrow> Namespace \<Rightarrow> (string \<times> string) list \<Rightarrow> string
     \<Rightarrow> bool \<times> (string \<times> string) list" where
  "IsSQLAllowed x n reqCtx sql =
     (if length (sqls n) = 0 then (True, reqCtx)
      else
        (case map_of (sqls n) (GetMd5 x (GetFingerprint x sql)) of
           Some f \<Rightarrow> (False, AList.update ''fingerprint'' (GetFingerprint x sql) reqCtx)
         | None \<Rightarrow> (True, AList.update ''fingerprint'' (GetFingerprint x sql) reqCtx)))"

definition IsAllowedDB :: "Namespace \<Rightarrow> string \<Rightarrow> bool" where
  "IsAllowedDB n dbname =
     (case map_of (allowedDBs n) dbname of None \<Rightarrow> False | Some allowed \<Rightarrow> allowed)"

definition GetDefaultPhyDB :: "Namespace \<Rightarrow> string \<Rightarrow> error + string" where
  "GetDefaultPhyDB n dbname =
     (if dbname = [] then Inr []
      else
        (case map_of (defaultPhyDBs n) dbname of
           None \<Rightarrow> Inl (InvalidDB dbname)
         | Some phyDB \<Rightarrow> Inr phyDB))"

definition SetCachedPlan :: "Namespace \<Rightarrow> string \<Rightarrow> string \<Rightarrow> Plan \<Rightarrow> Namespace" where
  "SetCachedPlan n db sql p = n\<lparr>planCache := lru_SetIfAbsent (planCache n) (db @ ''|'' @ sql) p\<rparr>"

definition SetSlowSQLFingerprint :: "Namespace \<Rightarrow> string \<Rightarrow> string \<Rightarrow> Namespace" where
  "SetSlowSQLFingerprint n md5 fingerprint =
     n\<lparr>slowSQLCache := lru_Set (slowSQLCache n) md5 fingerprint\<rparr>"


subsection \<open>Concrete inputs\<close>

text \<open>An attempt that fails: the pool gives no connection, or ping and reconnect both fail.\<close>

fun fails :: "attempt \<Rightarrow> bool" where
  "fails (GetFails c) = True"
| "fails (PingReconnectFail c) = True"
| "fails (PingOK c) = False"
| "fails (ReconnectOK c) = False"

text \<open>
  One choice of collaborators, for running the definitions: lower-casing stands for the
  fingerprint and reversal for its md5; every endpoint parses, every status starts \<open>UP\<close>.
\<close>

definition example_collaborators :: collaborators where
  "example_collaborators =
     \<lparr>GetFingerprint = ToLower,
      GetMd5 = rev,
      ParseInt = (\<lambda>s. if s = ''250'' then Inr 250 else Inl (External ''invalid syntax'')),
      ParseIPInfo = (\<lambda>s. Inr (IPInfo s)),
      mysql_DefaultCharset = ''utf8'',
      mysql_DefaultCollationID = 33,
      CharsetIds = [(''utf8'', 33)],
      CollationNames = [(''utf8_general_ci'', 33)],
      VerifyCharset = (\<lambda>charset collation. None),
      ParseMaster = (\<lambda>a. Inr \<lparr>ConnPool = [a], StatusMap = [(0, UP)]\<rparr>),
      ParseSlave = (\<lambda>as. Inr \<lparr>ConnPool = as,
                                 StatusMap = zip [0..<length as] (replicate (length as) UP)\<rparr>),
      NewRouter = (\<lambda>cfg. Inr (Router (Name cfg))),
      ReadWrite = 3,
      ReadWriteSplit = 1,
      StatisticUser = 1\<rparr>"

definition example_config :: NamespaceConfig where
  "example_config =
     \<lparr>Name = ''ns'',
      OpenGeneralLog = False,
      SlowSQLTime = [],
      MaxSqlExecuteTime = 0,
      MaxSqlResultSize = 0,
      AllowedDBS = [(''sbtest1'', True)],
      DefaultPhyDBS = [],
      AllowedIP = [],
      DefaultCharset = [],
      DefaultCollation = [],
      Users = [\<lparr>UserName = ''root'', u_RWFlag = 3, u_RWSplit = 1, u_OtherProperty = 0\<rparr>],
      Slices = [\<lparr>sc_Name = ''slice-0'', sc_Master = ''m0'', sc_Slaves = [''s0''],
                 sc_StatisticSlaves = []\<rparr>],
      GlobalSequences = [],
      BlackSQL = [],
      MaxClientConnections = 0,
      DownAfterNoAlive = 0,
      cfg_SecondsBehindMaster = 0,
      CheckSelectLock = False,
      DefaultSlice = ''slice-0''\<rparr>"

text \<open>A slave that answers every ping and reports a replication lag of ten seconds.\<close>

definition lagging_result :: Result where
  "lagging_result =
     \<lparr>Fields = [''Slave_IO_Running'', ''Slave_SQL_Running'', ''Seconds_Behind_Master''],
      GetValueByName = (\<lambda>row fieldName.
        if fieldName = ''Seconds_Behind_Master'' then Inr (ColUint64 10)
        else Inr (ColString ''Yes''))\<rparr>"

definition lagging_backends :: backends where
  "lagging_backends = \<lparr>pool_of = (\<lambda>a k. PingOK 7), execute = (\<lambda>c. Inr lagging_result)\<rparr>"

text \<open>The slice that \<open>example_config\<close> describes, as \<open>parseSlices\<close> builds it.\<close>

definition example_slice :: Slice where
  "example_slice =
     \<lparr>sl_Name = ''slice-0'',
      sl_charset = ''utf8'',
      sl_collationID = 33,
      Master = \<lparr>ConnPool = [''m0''], StatusMap = [(0, UP)]\<rparr>,
      Slave = \<lparr>ConnPool = [''s0''], StatusMap = [(0, UP)]\<rparr>,
      StatisticSlave = \<lparr>ConnPool = [], StatusMap = []\<rparr>,
      sl_closed = False\<rparr>"

text \<open>
  The namespace built from \<open>example_config\<close> with the given client-connection limit,
  \<open>DownAfterNoAlive\<close> and \<open>SecondsBehindMaster\<close>.
\<close>

definition example_config' :: "int \<Rightarrow> int \<Rightarrow> 64 word \<Rightarrow> NamespaceConfig" where
  "example_config' m d b =
     example_config\<lparr>MaxClientConnections := m, DownAfterNoAlive := d,
       cfg_SecondsBehindMaster := b\<rparr>"

definition example_namespace :: "int \<Rightarrow> int \<Rightarrow> 64 word \<Rightarrow> Namespace" where
  "example_namespace m d b =
     c_namespace (NewNamespace_body example_collaborators (example_config' m d b))"

text \<open>
  Three more configurations: one with a physical name configured (with a blank before
  the key and a no-break space, U+00A0, after the value), one whose only allowed DB has
  the empty name, one with a blacklist (one entry of which is a no-break space only).
\<close>

definition logical_config :: NamespaceConfig where
  "logical_config =
     example_config\<lparr>DefaultPhyDBS :=
       [('' sbtest1'', [CHR ''p'', CHR ''h'', CHR ''y'', CHR ''1'', CHR 0xC2, CHR 0xA0])]\<rparr>"

definition empty_name_config :: NamespaceConfig where
  "empty_name_config =
     example_config\<lparr>AllowedDBS := [([], True)], DefaultPhyDBS := [([], ''phy'')]\<rparr>"

definition blacklist_config :: NamespaceConfig where
  "blacklist_config =
     example_config\<lparr>BlackSQL := [''  SELECT 1  '', [CHR 0xC2, CHR 0xA0], ''select 1'']\<rparr>"

section \<open>Properties\<close>

subsection \<open>Trimming\<close>

lemma strip_fixed: "find (starts_with s) ws = None \<Longrightarrow> strip ws s = s"
  by (subst strip.simps) simp

lemma strip_no_start: "find (starts_with (strip ws s)) ws = None"
proof (induction ws s rule: strip.induct)
  case (1 ws s)
  show ?case
  proof (cases "find (starts_with s) ws")
    case None
    then show ?thesis by (simp add: strip_fixed)
  next
    case (Some w)
    then have "strip ws s = strip ws (drop (length w) s)" by (subst strip.simps) simp
    then show ?thesis using 1[OF Some] by simp
  qed
qed

lemma strip_suffix: "\<exists>p. s = p @ strip ws s"
proof (induction ws s rule: strip.induct)
  case (1 ws s)
  show ?case
  proof (cases "find (starts_with s) ws")
    case None
    then show ?thesis by (simp add: strip_fixed)
  next
    case (Some w)
    then have e: "strip ws s = strip ws (drop (length w) s)" by (subst strip.simps) simp
    from 1[OF Some] obtain p where "drop (length w) s = p @ strip ws (drop (length w) s)" ..
    then have "s = (take (length w) s @ p) @ strip ws s"
      using e by (metis append.assoc append_take_drop_id)
    then show ?thesis ..
  qed
qed

lemma no_start_prefix:
  assumes "find (starts_with (u @ q)) ws = None"
  shows "find (starts_with u) ws = None"
proof -
  have "\<not> starts_with u w" if "w \<in> set ws" for w
  proof
    assume a: "starts_with u w"
    then have "length (take (length w) u) = length w"
      by (simp add: starts_with_def)
    then have "length w \<le> length u" by simp
    then have "starts_with (u @ q) w" using a by (simp add: starts_with_def)
    then show False using assms that by (auto simp: find_None_iff)
  qed
  then show ?thesis by (auto simp: find_None_iff)
qed

text \<open>Trimming a trimmed string changes nothing.\<close>

lemma TrimSpace_idem: "TrimSpace (TrimSpace s) = TrimSpace s"
proof -
  let ?t = "strip white_space s"
  let ?r = "strip (map rev white_space) (rev ?t)"
  obtain p where "rev ?t = p @ ?r" using strip_suffix by blast
  then have "?t = rev ?r @ rev p" by (metis rev_append rev_rev_ident)
  then have "find (starts_with (rev ?r @ rev p)) white_space = None"
    using strip_no_start[of white_space s] by simp
  then have "find (starts_with (rev ?r)) white_space = None" by (rule no_start_prefix)
  then have l: "strip white_space (rev ?r) = rev ?r" by (rule strip_fixed)
  have "strip (map rev white_space) ?r = ?r"
    using strip_no_start[of "map rev white_space" "rev ?t"] by (rule strip_fixed)
  then show ?thesis by (simp add: TrimSpace_def TrimLeft_def TrimRight_def l)
qed

lemmas trim_eval = TrimSpace_def TrimLeft_def TrimRight_def strip.simps starts_with_def
  white_space_def

text \<open>The trimmed strings of the concrete inputs.\<close>

lemma TrimSpace_examples:
  "TrimSpace [] = []"
  "TrimSpace ''slice-0'' = ''slice-0''"
  "TrimSpace ''sbtest1'' = ''sbtest1''"
  "TrimSpace '' sbtest1'' = ''sbtest1''"
  "TrimSpace ''phy'' = ''phy''"
  "TrimSpace [CHR ''p'', CHR ''h'', CHR ''y'', CHR ''1'', CHR 0xC2, CHR 0xA0] = ''phy1''"
  "TrimSpace ''  SELECT 1  '' = ''SELECT 1''"
  "TrimSpace ''select 1'' = ''select 1''"
  "TrimSpace [CHR 0xC2, CHR 0xA0] = []"
  by (simp_all add: trim_eval cong: option.case_cong_weak)

subsection \<open>Construction\<close>

lemmas body_defs = NewNamespace_body_def init_slow_sql_def init_dbs_def init_allow_ip_def
  init_charset_users_def init_slices_def init_router_def init_sequences_def set_limits_def stop_def

text \<open>What a construction that returns a namespace has set.\<close>

lemma body_success_fields:
  assumes "c_ret (NewNamespace_body x cfg) = None"
  shows "maxClientConnections (c_namespace (NewNamespace_body x cfg)) = defaultMaxClientConnections"
    and "downAfterNoAlive (c_namespace (NewNamespace_body x cfg)) =
           (if DownAfterNoAlive cfg = 0 then defaultTimeAfterNoAlive else DownAfterNoAlive cfg)"
    and "0 \<le> DownAfterNoAlive cfg"
    and "secondsBehindMaster (c_namespace (NewNamespace_body x cfg)) = cfg_SecondsBehindMaster cfg"
    and "allowedDBs (c_namespace (NewNamespace_body x cfg)) = trim_allowedDBs (AllowedDBS cfg) []"
    and "parseDefaultPhyDB (trim_defaultPhyDBs (DefaultPhyDBS cfg) [])
           (trim_allowedDBs (AllowedDBS cfg) [])
           = Inr (defaultPhyDBs (c_namespace (NewNamespace_body x cfg)))"
    and "c_err (NewNamespace_body x cfg) = None"
  using assms
  by (auto simp: body_defs new_struct_def split: sum.splits prod.splits option.splits if_splits)

lemma returned_Inr:
  "returned (NewNamespace x cfg) = Inr n \<longleftrightarrow>
     c_ret (NewNamespace_body x cfg) = None \<and> n = c_namespace (NewNamespace_body x cfg)"
  by (auto simp: NewNamespace_def split: option.splits)

lemmas eval_defs = example_collaborators_def example_config_def example_config'_def
    parseBlackSqls_def parseSlowSQLTime_def parseDefaultPhyDB_def parseAllowIps_def parseCharset_def
    parseSlices_def parseSlice_def trimmed_slice_names_def checkSlicesStatus_def doCheckSlice_def
    TrimSpace_examples

text \<open>The example configuration is accepted unless \<open>DownAfterNoAlive\<close> is negative.\<close>

lemma example_accepted:
  "0 \<le> d \<Longrightarrow> c_ret (NewNamespace_body example_collaborators (example_config' m d b)) = None"
  by (simp add: body_defs new_struct_def eval_defs)

lemma example_returned:
  "0 \<le> d \<Longrightarrow>
   returned (NewNamespace example_collaborators (example_config' m d b)) = Inr (example_namespace m d b)"
  by (simp add: returned_Inr example_accepted example_namespace_def)

lemma example_slices: "slices (example_namespace m d b) = [(''slice-0'', example_slice)]"
  by (simp add: example_namespace_def body_defs new_struct_def eval_defs example_slice_def)

lemma example_downAfterNoAlive:
  "0 < d \<Longrightarrow> downAfterNoAlive (example_namespace m d b) = d"
  using body_success_fields(2)[OF example_accepted[of d m b]]
  by (simp add: example_namespace_def example_config'_def)

lemma example_secondsBehindMaster:
  "0 \<le> d \<Longrightarrow> secondsBehindMaster (example_namespace m d b) = b"
  using body_success_fields(4)[OF example_accepted[of d m b]]
  by (simp add: example_namespace_def example_config'_def)

subsection \<open>The backoff of the probe\<close>

lemma wrap64_id:
  "- 9223372036854775808 \<le> x \<Longrightarrow> x < 9223372036854775808 \<Longrightarrow> wrap64 x = x"
  unfolding wrap64_def by simp

lemma sleeps_append: "sleeps (xs @ ys) = sleeps xs @ sleeps ys"
  by (induction xs rule: sleeps.induct) simp_all

lemma attempt_times_append: "attempt_times (xs @ ys) = attempt_times xs @ attempt_times ys"
  by (induction xs rule: attempt_times.induct) simp_all

text \<open>A failing pass of the loop body: it sleeps \<open>sleepTime\<close> seconds and doubles it.\<close>

lemma loop_body_fails:
  assumes "fails a" and "0 \<le> p_sleepTime p" and "p_sleepTime p \<le> 4294967296"
  shows "\<not> fst (loop_body a p)"
    and "p_sleepTime (snd (loop_body a p)) = 2 * p_sleepTime p"
    and "p_err (snd (loop_body a p))"
    and "p_calls (snd (loop_body a p)) = Suc (p_calls p)"
    and "p_clock (snd (loop_body a p)) = p_clock p + p_sleepTime p * 1000000000"
    and "sleeps (p_trace (snd (loop_body a p))) = sleeps (p_trace p) @ [p_sleepTime p * 1000000000]"
    and "attempt_times (p_trace (snd (loop_body a p))) = attempt_times (p_trace p) @ [p_clock p]"
proof -
  have w1: "wrap64 (p_sleepTime p * 1000000000) = p_sleepTime p * 1000000000"
    using assms(2,3) by (intro wrap64_id) simp_all
  have w2: "wrap64 (p_sleepTime p * 2) = 2 * p_sleepTime p"
    using assms(2,3) wrap64_id[of "p_sleepTime p * 2"] by simp
  have nn: "max 0 (p_sleepTime p * 1000000000) = p_sleepTime p * 1000000000"
    using assms(2) by simp
  note defs = post_statement_def time_Sleep_def pool_Get_def conn_Recycle_def Let_def
    sleeps_append attempt_times_append
  show "\<not> fst (loop_body a p)"
    using assms(1) by (cases "(a, p)" rule: loop_body.cases) auto
  show "p_sleepTime (snd (loop_body a p)) = 2 * p_sleepTime p"
    using assms(1) w1 w2 by (cases "(a, p)" rule: loop_body.cases) (auto simp: defs)
  show "p_err (snd (loop_body a p))"
    using assms(1) by (cases "(a, p)" rule: loop_body.cases) (auto simp: defs)
  show "p_calls (snd (loop_body a p)) = Suc (p_calls p)"
    using assms(1) by (cases "(a, p)" rule: loop_body.cases) (auto simp: defs)
  show "p_clock (snd (loop_body a p)) = p_clock p + p_sleepTime p * 1000000000"
    using assms(1) w1 nn by (cases "(a, p)" rule: loop_body.cases) (auto simp: defs)
  show "sleeps (p_trace (snd (loop_body a p))) = sleeps (p_trace p) @ [p_sleepTime p * 1000000000]"
    using assms(1) w1 by (cases "(a, p)" rule: loop_body.cases) (auto simp: defs)
  show "attempt_times (p_trace (snd (loop_body a p))) = attempt_times (p_trace p) @ [p_clock p]"
    using assms(1) by (cases "(a, p)" rule: loop_body.cases) (auto simp: defs)
qed

text \<open>
  The loop against a pool that always fails, from \<open>sleepTime = 2 ^ j\<close> on: it makes
  \<open>m\<close> more passes and ends, by induction on \<open>m\<close>.
\<close>

lemma backoff_fails:
  assumes "\<forall>n. fails (v n)" and "\<forall>i<k. 2 ^ i < d" and "d \<le> 2 ^ k" and "k \<le> 33"
  shows "p_sleepTime p = 2 ^ j \<Longrightarrow> j + m = k \<Longrightarrow>
     \<exists>p'. backoff_loop d v p = Some p' \<and> p_sleepTime p' = 2 ^ k \<and> (p_err p' = (p_err p \<or> 0 < m))
       \<and> p_calls p' = p_calls p + m
       \<and> p_clock p' = p_clock p + (2 ^ k - 2 ^ j) * 1000000000
       \<and> sleeps (p_trace p') = sleeps (p_trace p) @ map (\<lambda>i. 2 ^ i * 1000000000) [j..<k]
       \<and> attempt_times (p_trace p') =
           attempt_times (p_trace p) @ map (\<lambda>i. p_clock p + (2 ^ i - 2 ^ j) * 1000000000) [j..<k]"
proof (induction m arbitrary: p j)
  case 0
  then have "\<not> p_sleepTime p < d" using assms(3) by simp
  then have "backoff_loop d v p = Some p" by (subst backoff_loop.simps) simp
  then show ?case using 0 by simp
next
  case (Suc m)
  let ?q = "snd (loop_body (v (p_calls p)) p)"
  have jk: "j < k" using Suc.prems by simp
  then have lt: "p_sleepTime p < d" using assms(2) Suc.prems by simp
  have j32: "j \<le> 32" using jk assms(4) by simp
  have "(2::int) ^ j \<le> 2 ^ 32" using j32 by (intro power_increasing) simp_all
  then have b: "0 \<le> p_sleepTime p" "p_sleepTime p \<le> 4294967296" using Suc.prems by simp_all
  have f: "fails (v (p_calls p))" using assms(1) by simp
  note lb = loop_body_fails[OF f b]
  have unf: "backoff_loop d v p = backoff_loop d v ?q"
    by (subst backoff_loop.simps) (simp add: lt lb(1))
  have "p_sleepTime ?q = 2 ^ Suc j" using lb(2) Suc.prems by simp
  moreover have "Suc j + m = k" using Suc.prems by simp
  ultimately obtain p' where p': "backoff_loop d v ?q = Some p'" "p_sleepTime p' = 2 ^ k"
      "p_err p' = (p_err ?q \<or> 0 < m)" "p_calls p' = p_calls ?q + m"
      "p_clock p' = p_clock ?q + (2 ^ k - 2 ^ Suc j) * 1000000000"
      "sleeps (p_trace p') = sleeps (p_trace ?q) @ map (\<lambda>i. 2 ^ i * 1000000000) [Suc j..<k]"
      "attempt_times (p_trace p') =
         attempt_times (p_trace ?q) @
         map (\<lambda>i. p_clock ?q + (2 ^ i - 2 ^ Suc j) * 1000000000) [Suc j..<k]"
    using Suc.IH[of ?q "Suc j"] by blast
  have upt: "[j..<k] = j # [Suc j..<k]" using jk by (rule upt_conv_Cons)
  have "backoff_loop d v p = Some p'" using unf p'(1) by simp
  moreover have "p_err p' = (p_err p \<or> 0 < Suc m)" using p'(3) lb(3) by simp
  moreover have "p_calls p' = p_calls p + Suc m" using p'(4) lb(4) by simp
  moreover have "p_clock p' = p_clock p + (2 ^ k - 2 ^ j) * 1000000000"
    using p'(5) lb(5) Suc.prems(1) by (simp add: algebra_simps)
  moreover have "sleeps (p_trace p') = sleeps (p_trace p) @ map (\<lambda>i. 2 ^ i * 1000000000) [j..<k]"
    using p'(6) lb(6) Suc.prems(1) upt by simp
  moreover have "attempt_times (p_trace p') =
      attempt_times (p_trace p) @ map (\<lambda>i. p_clock p + (2 ^ i - 2 ^ j) * 1000000000) [j..<k]"
    using p'(7) lb(7) lb(5) Suc.prems(1) upt by (simp add: algebra_simps)
  ultimately show ?case using p'(2) by blast
qed

text \<open>
  The loop as it is written, against a pool on which every attempt fails, with
  \<open>downAfterNoAlive\<close> at most \<open>2 ^ 33\<close> seconds (so that no duration wraps around): the
  probe returns \<open>DOWN\<close>; it calls the pool \<open>k\<close> times, where \<open>2 ^ k\<close> is the first power
  of two that reaches \<open>downAfterNoAlive\<close>, and sleeps \<open>2 ^ i\<close> seconds after the \<open>i\<close>-th
  failure. Times are in nanoseconds.
\<close>

lemma backoff_all_fail:
  assumes "\<forall>n. fails (v n)"
    and "\<forall>i<k. 2 ^ i < downAfterNoAlive ns"
    and "downAfterNoAlive ns \<le> 2 ^ k"
    and "downAfterNoAlive ns \<le> 8589934592"
  shows "\<exists>c p. getInstanceStatus ns v = Some (DOWN, c, p)
           \<and> p_calls p = k
           \<and> sleeps (p_trace p) = map (\<lambda>i. 2 ^ i * 1000000000) [0..<k]
           \<and> attempt_times (p_trace p) = map (\<lambda>i. (2 ^ i - 1) * 1000000000) [0..<k]
           \<and> p_clock p = (2 ^ k - 1) * 1000000000"
proof -
  have k33: "k \<le> 33"
  proof (rule ccontr)
    assume "\<not> k \<le> 33"
    then have "33 < k" by simp
    with assms(2) have "(2::int) ^ 33 < downAfterNoAlive ns" by blast
    then show False using assms(4) by simp
  qed
  have "p_sleepTime probe_init = 2 ^ 0" by (simp add: probe_init_def)
  from backoff_fails[OF assms(1,2,3) k33 this, of k]
  obtain p' where p': "backoff_loop (downAfterNoAlive ns) v probe_init = Some p'"
      "p_sleepTime p' = 2 ^ k" "p_calls p' = p_calls probe_init + k"
      "p_clock p' = p_clock probe_init + (2 ^ k - 2 ^ 0) * 1000000000"
      "sleeps (p_trace p') =
         sleeps (p_trace probe_init) @ map (\<lambda>i. 2 ^ i * 1000000000) [0..<k]"
      "attempt_times (p_trace p') =
         attempt_times (p_trace probe_init) @
         map (\<lambda>i. p_clock probe_init + (2 ^ i - 2 ^ 0) * 1000000000) [0..<k]"
    by auto
  have "probe_status (downAfterNoAlive ns) p' = DOWN"
    using p'(2) assms(3) by (simp add: probe_status_def)
  then have "getInstanceStatus ns v = Some (DOWN, p_conn p', p')"
    using p'(1) by (simp add: getInstanceStatus_def)
  moreover have "p_calls p' = k" using p'(3) by (simp add: probe_init_def)
  moreover have "p_clock p' = (2 ^ k - 1) * 1000000000" using p'(4) by (simp add: probe_init_def)
  moreover have "sleeps (p_trace p') = map (\<lambda>i. 2 ^ i * 1000000000) [0..<k]"
    using p'(5) by (simp add: probe_init_def)
  moreover have "attempt_times (p_trace p') = map (\<lambda>i. (2 ^ i - 1) * 1000000000) [0..<k]"
    using p'(6) by (simp add: probe_init_def)
  ultimately show ?thesis by blast
qed

text \<open>
  C2. With \<open>downAfterNoAlive = 8\<close> and a pool on which every attempt fails, the probe
  calls the pool three times, at 0, 1 and 3 seconds, sleeping 1, 2 and 4 seconds after
  the failures, and returns \<open>DOWN\<close> at 7 seconds: it sleeps after the third failure and
  then gives up without the check at 7 seconds that the sleep was for. The same holds
  against a pool whose fourth call would have been answered: it is never called.
\<close>

theorem no_attempt_after_last_sleep:
  "(\<exists>p. getInstanceStatus (example_namespace 0 8 0) (\<lambda>k. GetFails None) = Some (DOWN, None, p)
       \<and> attempt_times (p_trace p) = [0, 1000000000, 3000000000]
       \<and> sleeps (p_trace p) = [1000000000, 2000000000, 4000000000]
       \<and> p_clock p = 7000000000)
   \<and> (\<exists>p. getInstanceStatus (example_namespace 0 8 0)
              (\<lambda>k. if k < 3 then GetFails None else PingOK 7) = Some (DOWN, None, p)
       \<and> attempt_times (p_trace p) = [0, 1000000000, 3000000000]
       \<and> sleeps (p_trace p) = [1000000000, 2000000000, 4000000000]
       \<and> p_clock p = 7000000000)"
proof -
  note ev = getInstanceStatus_def example_downAfterNoAlive probe_init_def backoff_loop.simps
     post_statement_def time_Sleep_def pool_Get_def wrap64_def probe_status_def
  have "\<exists>p. getInstanceStatus (example_namespace 0 8 0) (\<lambda>k. GetFails None) = Some (DOWN, None, p)
       \<and> attempt_times (p_trace p) = [0, 1000000000, 3000000000]
       \<and> sleeps (p_trace p) = [1000000000, 2000000000, 4000000000]
       \<and> p_clock p = 7000000000"
    by (simp add: ev)
  moreover have "\<exists>p. getInstanceStatus (example_namespace 0 8 0)
              (\<lambda>k. if k < 3 then GetFails None else PingOK 7) = Some (DOWN, None, p)
       \<and> attempt_times (p_trace p) = [0, 1000000000, 3000000000]
       \<and> sleeps (p_trace p) = [1000000000, 2000000000, 4000000000]
       \<and> p_clock p = 7000000000"
    by (simp add: ev)
  ultimately show ?thesis by simp
qed

subsection \<open>The lag check\<close>

text \<open>When \<open>shouldCheckSlaveDataSyncStatus\<close> answers yes.\<close>

lemma shouldCheck_iff:
  "shouldCheckSlaveDataSyncStatus n st sl isMaster =
     (\<not> isMaster \<and> st = DOWN \<and> map_of (StatusMap (Master sl)) 0 \<noteq> Some DOWN
        \<and> secondsBehindMaster n \<noteq> 0)"
  by (cases st) (auto simp: shouldCheckSlaveDataSyncStatus_def)

lemma ToLower_fields:
  "ToLower ''Slave_IO_Running'' = ''slave_io_running''"
  "ToLower ''Slave_SQL_Running'' = ''slave_sql_running''"
  "ToLower ''Seconds_Behind_Master'' = ''seconds_behind_master''"
  by (simp_all add: ToLower_def lower_char_def)

lemma lagging_status:
  "fill_fields lagging_result (Fields lagging_result) SlaveStatus_zero =
     (SlaveStatus_zero\<lparr>SecondsBehindMaster := 10, SlaveIORunning := ''Yes'',
        SlaveSQLRunning := ''Yes''\<rparr>, None)"
  by (simp add: lagging_result_def set_field_def ToLower_fields SlaveStatus_zero_def)

lemma lagging_is_lag:
  "secondsBehindMaster n = 5 \<Longrightarrow>
   slaveIsLagBehand (execute lagging_backends) (Some c) n = Inr (True, None)"
  by (simp add: slaveIsLagBehand_def GetSlaveStatus_def lagging_backends_def lagging_status)

lemma healthy_probe:
  "1 < downAfterNoAlive n \<Longrightarrow>
   getInstanceStatus n (\<lambda>k. PingOK c) =
     Some (UP, Some c, probe_init\<lparr>p_conn := Some c, p_calls := 1, p_trace := [EvGet 0]\<rparr>)"
  by (simp add: getInstanceStatus_def backoff_loop.simps probe_init_def pool_Get_def
      probe_status_def)

text \<open>
  C1. The lag check is issued exactly when the probe's status is \<open>DOWN\<close> (not \<open>UP\<close>),
  the pool is not the master's, the master's status is not \<open>DOWN\<close> and
  \<open>secondsBehindMaster\<close> is not zero. So with the master \<open>UP\<close> and a threshold of 5
  seconds, a slave that answers the ping and reports a lag of 10 seconds, for which
  \<open>slaveIsLagBehand\<close> answers yes, is never asked and ends the tick \<open>UP\<close>.
\<close>

theorem lag_check_skipped_when_UP:
  "shouldCheckSlaveDataSyncStatus n st sl isMaster =
     (\<not> isMaster \<and> st = DOWN \<and> map_of (StatusMap (Master sl)) 0 \<noteq> Some DOWN
        \<and> secondsBehindMaster n \<noteq> 0)
   \<and> map_of (StatusMap (Master example_slice)) 0 = Some UP
   \<and> slaveIsLagBehand (execute lagging_backends) (Some 7) (example_namespace 0 8 5)
        = Inr (True, None)
   \<and> check_pool lagging_backends (example_namespace 0 8 5) RSlave 0 ''s0'' example_slice
        = Some (Inr (example_slice\<lparr>Slave := \<lparr>ConnPool = [''s0''], StatusMap = [(0, UP)]\<rparr>\<rparr>))"
proof -
  have d: "downAfterNoAlive (example_namespace 0 8 5) = 8"
    by (simp add: example_downAfterNoAlive)
  have b: "secondsBehindMaster (example_namespace 0 8 5) = 5"
    by (simp add: example_secondsBehindMaster)
  have p: "getInstanceStatus (example_namespace 0 8 5) (pool_of lagging_backends ''s0'') =
     Some (UP, Some 7, probe_init\<lparr>p_conn := Some 7, p_calls := 1, p_trace := [EvGet 0]\<rparr>)"
    using healthy_probe[of "example_namespace 0 8 5" 7] d by (simp add: lagging_backends_def)
  have "check_pool lagging_backends (example_namespace 0 8 5) RSlave 0 ''s0'' example_slice
        = Some (Inr (example_slice\<lparr>Slave := \<lparr>ConnPool = [''s0''], StatusMap = [(0, UP)]\<rparr>\<rparr>))"
    by (simp add: check_pool_def p shouldCheck_iff example_slice_def)
  moreover have "map_of (StatusMap (Master example_slice)) 0 = Some UP"
    by (simp add: example_slice_def)
  ultimately show ?thesis using shouldCheck_iff lagging_is_lag[OF b] by simp
qed

subsection \<open>\<open>DownAfterNoAlive = 1\<close>\<close>

lemma probe_without_attempt:
  "downAfterNoAlive n \<le> 1 \<Longrightarrow> getInstanceStatus n v = Some (DOWN, None, probe_init)"
  by (simp add: getInstanceStatus_def backoff_loop.simps probe_init_def probe_status_def)

text \<open>
  C10 (as amended). A configured \<open>DownAfterNoAlive\<close> of 1 passes the last step of the
  constructor. In the namespace built, the probe of any pool makes no call of the pool
  (its trace is empty) and returns \<open>DOWN\<close> with a \<open>nil\<close> connection; hence a tick on a
  pool for which the lag check is not due (always so for a master pool) stores \<open>DOWN\<close>
  for the instance, whatever the pool would have answered.
\<close>

theorem downAfterNoAlive_one:
  assumes "DownAfterNoAlive cfg = 1" and "returned (NewNamespace x cfg) = Inr n"
  shows "c_ret (set_limits cfg g m) = None
       \<and> getInstanceStatus n v = Some (DOWN, None, probe_init)
       \<and> p_trace probe_init = [] \<and> p_calls probe_init = 0
       \<and> check_pool b n RMaster idx a sl =
           Some (Inr (sl\<lparr>Master := (Master sl)\<lparr>StatusMap :=
                          AList.update idx DOWN (StatusMap (Master sl))\<rparr>\<rparr>))
       \<and> (\<not> shouldCheckSlaveDataSyncStatus n DOWN sl (r = RMaster) \<longrightarrow>
            check_pool b n r idx a sl =
              Some (Inr (group_update r ((group_of r sl)\<lparr>StatusMap :=
                           AList.update idx DOWN (StatusMap (group_of r sl))\<rparr>) sl)))"
proof -
  have ok: "c_ret (NewNamespace_body x cfg) = None" and n: "n = c_namespace (NewNamespace_body x cfg)"
    using assms(2) by (simp_all add: returned_Inr)
  have d: "downAfterNoAlive n = 1"
    using body_success_fields(2)[OF ok] assms(1) n by simp
  have p: "getInstanceStatus n v' = Some (DOWN, None, probe_init)" for v'
    using probe_without_attempt[of n v'] d by simp
  have "c_ret (set_limits cfg g m) = None"
    using assms(1) by (simp add: set_limits_def)
  moreover have "check_pool b n RMaster idx a sl =
           Some (Inr (sl\<lparr>Master := (Master sl)\<lparr>StatusMap :=
                          AList.update idx DOWN (StatusMap (Master sl))\<rparr>\<rparr>))"
    by (simp add: check_pool_def p shouldCheck_iff)
  moreover have "\<not> shouldCheckSlaveDataSyncStatus n DOWN sl (r = RMaster) \<longrightarrow>
            check_pool b n r idx a sl =
              Some (Inr (group_update r ((group_of r sl)\<lparr>StatusMap :=
                           AList.update idx DOWN (StatusMap (group_of r sl))\<rparr>) sl))"
    by (simp add: check_pool_def p)
  ultimately show ?thesis using p by (simp add: probe_init_def)
qed

theorem downAfterNoAlive_one_witness:
  "DownAfterNoAlive (example_config' 0 1 0) = 1
   \<and> returned (NewNamespace example_collaborators (example_config' 0 1 0))
       = Inr (example_namespace 0 1 0)
   \<and> getInstanceStatus (example_namespace 0 1 0) (\<lambda>k. PingOK 7) = Some (DOWN, None, probe_init)
   \<and> check_pool lagging_backends (example_namespace 0 1 0) RMaster 0 ''m0'' example_slice
       = Some (Inr (example_slice\<lparr>Master := \<lparr>ConnPool = [''m0''], StatusMap = [(0, DOWN)]\<rparr>\<rparr>))
   \<and> check_pool lagging_backends (example_namespace 0 1 0) RSlave 0 ''s0'' example_slice
       = Some (Inr (example_slice\<lparr>Slave := \<lparr>ConnPool = [''s0''], StatusMap = [(0, DOWN)]\<rparr>\<rparr>))"
proof -
  have h1: "DownAfterNoAlive (example_config' 0 1 0) = 1"
    by (simp add: example_config'_def)
  have h2: "returned (NewNamespace example_collaborators (example_config' 0 1 0))
       = Inr (example_namespace 0 1 0)"
    by (simp add: example_returned)
  have sbm: "secondsBehindMaster (example_namespace 0 1 0) = 0"
    by (simp add: example_secondsBehindMaster)
  have h3: "\<not> shouldCheckSlaveDataSyncStatus (example_namespace 0 1 0) DOWN example_slice
              (RSlave = RMaster)"
    by (simp add: shouldCheck_iff sbm)
  show ?thesis
    using downAfterNoAlive_one[OF h1 h2, of _ _ "\<lambda>k. PingOK 7" lagging_backends 0 "''m0''"
        example_slice RSlave]
      downAfterNoAlive_one[OF h1 h2, of _ _ "\<lambda>k. PingOK 7" lagging_backends 0 "''s0''"
        example_slice RSlave] h1 h2 h3
    by (simp add: example_slice_def)
qed

text \<open>
  With \<open>DownAfterNoAlive = 1\<close> and a lag threshold of 5 seconds, a tick on the slave
  while the master's status is still \<open>UP\<close> hands the \<open>nil\<close> connection to the lag check,
  which panics: the tick does not store \<open>DOWN\<close>.
\<close>

theorem downAfterNoAlive_one_slave_tick_panics:
  "DownAfterNoAlive (example_config' 0 1 5) = 1
   \<and> returned (NewNamespace example_collaborators (example_config' 0 1 5))
       = Inr (example_namespace 0 1 5)
   \<and> map_of (slices (example_namespace 0 1 5)) ''slice-0'' = Some example_slice
   \<and> check_pool lagging_backends (example_namespace 0 1 5) RSlave 0 ''s0'' example_slice
       = Some (Inl NilPointerDereference)"
proof -
  have sbm: "secondsBehindMaster (example_namespace 0 1 5) = 5"
    by (simp add: example_secondsBehindMaster)
  have d: "downAfterNoAlive (example_namespace 0 1 5) = 1"
    by (simp add: example_downAfterNoAlive)
  have "check_pool lagging_backends (example_namespace 0 1 5) RSlave 0 ''s0'' example_slice
       = Some (Inl NilPointerDereference)"
    by (simp add: check_pool_def probe_without_attempt d shouldCheck_iff sbm example_slice_def
        slaveIsLagBehand_def GetSlaveStatus_def)
  moreover have "DownAfterNoAlive (example_config' 0 1 5) = 1"
    by (simp add: example_config'_def)
  ultimately show ?thesis
    by (simp add: example_returned example_slices)
qed

subsection \<open>The client-connection limit\<close>

text \<open>
  C3. The constructor tests the field \<open>maxClientConnections\<close> of the new struct, which
  is still zero, and not the configured value: whenever it returns a namespace, the
  limit is the default \<open>100000000\<close>, whatever \<open>MaxClientConnections\<close> was configured.
\<close>

theorem maxClientConnections_is_default:
  assumes "returned (NewNamespace x cfg) = Inr n"
  shows "maxClientConnections n = 100000000"
proof -
  have ok: "c_ret (NewNamespace_body x cfg) = None" and n: "n = c_namespace (NewNamespace_body x cfg)"
    using assms by (simp_all add: returned_Inr)
  show ?thesis
    using body_success_fields(1)[OF ok] n by (simp add: defaultMaxClientConnections_def)
qed

theorem maxClientConnections_is_default_witness:
  "MaxClientConnections (example_config' 500 0 0) = 500
   \<and> returned (NewNamespace example_collaborators (example_config' 500 0 0))
       = Inr (example_namespace 500 0 0)
   \<and> maxClientConnections (example_namespace 500 0 0) = 100000000"
proof -
  have h: "returned (NewNamespace example_collaborators (example_config' 500 0 0))
       = Inr (example_namespace 500 0 0)"
    by (simp add: example_returned)
  have "MaxClientConnections (example_config' 500 0 0) = 500"
    by (simp add: example_config'_def)
  then show ?thesis using maxClientConnections_is_default[OF h] h by simp
qed

subsection \<open>Errors of the constructor\<close>

text \<open>
  An error of a parser reaches the deferred function through \<open>err\<close>; the error of a
  negative \<open>DownAfterNoAlive\<close> and that of an unknown slice of a sequence are returned
  without being assigned to \<open>err\<close>.
\<close>

lemma body_error_cases:
  assumes "c_ret (NewNamespace_body x cfg) = Some e"
  shows "c_err (NewNamespace_body x cfg) = None \<longleftrightarrow>
           e = DownAfterNoAliveNegative \<or> (\<exists>s. e = SliceNotFound s)"
proof -
  have seq: "init_sequences_loop ss gs acc = Inl e' \<Longrightarrow> \<exists>s. e' = SliceNotFound s"
    for ss gs acc e'
    by (induction ss gs acc rule: init_sequences_loop.induct) (auto split: option.splits)
  show ?thesis
    using assms
    by (auto simp: body_defs new_struct_def
        split: sum.splits prod.splits option.splits if_splits dest: seq)
qed

lemma example_negative_body:
  "NewNamespace_body example_collaborators (example_config' 0 (- 1) 0) =
     \<lparr>c_namespace = example_namespace 0 (- 1) 0, c_err = None,
      c_ret = Some DownAfterNoAliveNegative,
      c_supervisors = Some \<lparr>ctx_done = False,
        workers = [(''slice-0'', RSlave), (''slice-0'', RStatisticSlave), (''slice-0'', RMaster)]\<rparr>\<rparr>"
  by (simp add: example_namespace_def)
     (simp add: body_defs new_struct_def eval_defs)

text \<open>
  C8. With \<open>DownAfterNoAlive = -1\<close> in an otherwise valid configuration, the
  constructor returns the error (and no namespace), but the deferred function finds
  \<open>err\<close> unset and does not call \<open>Close\<close>: the slice built stays open and its three
  supervisors stay started. An error of a parser (here an unparsable \<open>SlowSQLTime\<close>)
  does make the deferred function call \<open>Close(false)\<close>.
\<close>

theorem negative_downAfterNoAlive_not_closed:
  "returned (NewNamespace example_collaborators (example_config' 0 (- 1) 0))
     = Inl DownAfterNoAliveNegative
   \<and> deferred_Close (NewNamespace example_collaborators (example_config' 0 (- 1) 0)) = None
   \<and> slices (example_namespace 0 (- 1) 0) = [(''slice-0'', example_slice)]
   \<and> \<not> sl_closed example_slice
   \<and> started (NewNamespace example_collaborators (example_config' 0 (- 1) 0))
       = Some \<lparr>ctx_done = False,
           workers = [(''slice-0'', RSlave), (''slice-0'', RStatisticSlave), (''slice-0'', RMaster)]\<rparr>
   \<and> returned (NewNamespace example_collaborators (example_config\<lparr>SlowSQLTime := ''abc''\<rparr>))
       = Inl (Wrapped ''parse slowSQLTime error'' (External ''invalid syntax''))
   \<and> deferred_Close (NewNamespace example_collaborators (example_config\<lparr>SlowSQLTime := ''abc''\<rparr>))
       = Some (snd (Close False (new_struct example_config)))"
proof -
  have "NewNamespace_body example_collaborators (example_config\<lparr>SlowSQLTime := ''abc''\<rparr>) =
     \<lparr>c_namespace = new_struct example_config, c_err = Some (External ''invalid syntax''),
      c_ret = Some (Wrapped ''parse slowSQLTime error'' (External ''invalid syntax'')),
      c_supervisors = None\<rparr>"
    by (simp add: body_defs new_struct_def eval_defs)
  then show ?thesis
    by (simp add: NewNamespace_def example_negative_body example_slices example_slice_def)
qed

subsection \<open>\<open>Close\<close>\<close>

lemma checkSlicesStatus_loop_ctx:
  "checkSlicesStatus_loop ss g = (g', e) \<Longrightarrow> e = None \<and> ctx_done g' = ctx_done g"
  by (induction ss g rule: checkSlicesStatus_loop.induct) (auto simp: doCheckSlice_def)

lemma body_supervisors:
  assumes "c_supervisors (NewNamespace_body x cfg) = Some g"
  shows "\<not> ctx_done g"
proof -
  have "checkSlicesStatus ss = (g', e) \<Longrightarrow> \<not> ctx_done g'" for ss g' e
    using checkSlicesStatus_loop_ctx[of ss "\<lparr>ctx_done = False, workers = []\<rparr>" g' e]
    by (simp add: checkSlicesStatus_def)
  then show ?thesis
    using assms
    by (auto simp: body_defs new_struct_def
        split: sum.splits prod.splits option.splits if_splits)
qed

text \<open>
  C4. The context under which the supervisors of a namespace run is made by
  \<open>checkSlicesStatus\<close> and its \<open>cancel\<close> is kept nowhere: \<open>Close\<close> takes and gives back the
  namespace only. The context of the supervisors started by a constructor is not done,
  and it is the same after \<open>Close\<close>; a turn of a worker under it never takes the branch
  that returns.
\<close>

theorem Close_leaves_supervisors_running:
  assumes "started (NewNamespace x cfg) = Some g"
  shows "\<not> ctx_done g
       \<and> checkStatus_turn (ctx_done g) b (snd (Close delay n)) r sl \<noteq> Some Returned"
proof -
  have "c_supervisors (NewNamespace_body x cfg) = Some g"
    using assms by (simp add: NewNamespace_def)
  then have nd: "\<not> ctx_done g" by (rule body_supervisors)
  then have "checkStatus_turn (ctx_done g) b (snd (Close delay n)) r sl \<noteq> Some Returned"
    by (auto simp: checkStatus_turn_def split: option.splits sum.splits)
  with nd show ?thesis by simp
qed

lemma example_started:
  "started (NewNamespace example_collaborators (example_config' 0 0 0)) =
     Some \<lparr>ctx_done = False,
       workers = [(''slice-0'', RSlave), (''slice-0'', RStatisticSlave), (''slice-0'', RMaster)]\<rparr>"
  by (simp add: NewNamespace_def body_defs new_struct_def eval_defs)

theorem Close_leaves_supervisors_running_witness:
  "started (NewNamespace example_collaborators (example_config' 0 0 0)) =
     Some \<lparr>ctx_done = False,
       workers = [(''slice-0'', RSlave), (''slice-0'', RStatisticSlave), (''slice-0'', RMaster)]\<rparr>
   \<and> checkStatus_turn False lagging_backends (snd (Close False (example_namespace 0 0 0)))
        RMaster (Slice_Close example_slice) \<noteq> Some Returned"
  using Close_leaves_supervisors_running[OF example_started, of lagging_backends False
      "example_namespace 0 0 0" RMaster "Slice_Close example_slice"] example_started
  by simp

text \<open>
  C5 (as amended). After \<open>Close\<close>, with or without the delay, the four fingerprint
  caches are empty and every slice is closed; the plan cache is as it was. With the
  delay, \<open>Close\<close> has slept 60 seconds.
\<close>

theorem Close_clears_fingerprint_caches:
  "entries (slowSQLCache (snd (Close delay n))) = []
   \<and> entries (errorSQLCache (snd (Close delay n))) = []
   \<and> entries (backendSlowSQLCache (snd (Close delay n))) = []
   \<and> entries (backendErrorSQLCache (snd (Close delay n))) = []
   \<and> planCache (snd (Close delay n)) = planCache n
   \<and> list_all (\<lambda>ks. sl_closed (snd ks)) (slices (snd (Close delay n)))
   \<and> fst (Close delay n) = (if delay then 60 else 0)"
  by (simp add: Close_def lru_Clear_def Slice_Close_def namespaceDelayClose_def list_all_iff
      split_beta)

lemma example_planCache:
  "planCache (example_namespace m d b) = NewLRUCache defaultPlanCacheCapacity"
  by (simp add: example_namespace_def body_defs new_struct_def eval_defs)

text \<open>A plan cached before \<open>Close\<close> is still in the plan cache after it.\<close>

theorem plan_cache_survives_Close:
  "entries (planCache (snd (Close False
      (SetCachedPlan (example_namespace 0 0 0) ''sbtest1'' ''select 1'' (Plan ''p'')))))
     = [(''sbtest1|select 1'', Plan ''p'')]
   \<and> entries (planCache (snd (Close True
      (SetCachedPlan (example_namespace 0 0 0) ''sbtest1'' ''select 1'' (Plan ''p'')))))
     \<noteq> []"
  by (simp add: Close_def SetCachedPlan_def example_planCache NewLRUCache_def
      lru_SetIfAbsent_def defaultPlanCacheCapacity_def)

subsection \<open>User predicates\<close>

text \<open>
  C9. For a user that is not a key of \<open>userProperties\<close>, each of \<open>IsAllowWrite\<close>,
  \<open>IsRWSplit\<close>, \<open>IsStatisticUser\<close> and \<open>GetUserProperty\<close> panics on the \<open>nil\<close> pointer and
  returns no value.
\<close>

theorem unknown_user_panics:
  assumes "u \<notin> fst ` set (userProperties n)"
  shows "IsAllowWrite x n u = Inl NilPointerDereference
       \<and> IsRWSplit x n u = Inl NilPointerDereference
       \<and> IsStatisticUser x n u = Inl NilPointerDereference
       \<and> GetUserProperty n u = Inl NilPointerDereference"
proof -
  have "map_of (userProperties n) u = None"
    using assms by (simp add: map_of_eq_None_iff)
  then show ?thesis
    by (simp add: IsAllowWrite_def IsRWSplit_def IsStatisticUser_def GetUserProperty_def)
qed

lemma example_userProperties:
  "userProperties (example_namespace m d b) =
     [(''root'', \<lparr>RWFlag = 3, RWSplit = 1, OtherProperty = 0\<rparr>)]"
  by (simp add: example_namespace_def body_defs new_struct_def eval_defs)

theorem unknown_user_panics_witness:
  "''guest'' \<notin> fst ` set (userProperties (example_namespace 0 0 0))
   \<and> IsAllowWrite example_collaborators (example_namespace 0 0 0) ''guest''
       = Inl NilPointerDereference
   \<and> IsRWSplit example_collaborators (example_namespace 0 0 0) ''guest''
       = Inl NilPointerDereference
   \<and> IsStatisticUser example_collaborators (example_namespace 0 0 0) ''guest''
       = Inl NilPointerDereference
   \<and> GetUserProperty (example_namespace 0 0 0) ''guest'' = Inl NilPointerDereference"
proof -
  have h: "''guest'' \<notin> fst ` set (userProperties (example_namespace 0 0 0))"
    by (simp add: example_userProperties)
  show ?thesis
    using unknown_user_panics[OF h, of example_collaborators] h by simp
qed

subsection \<open>The blacklist\<close>

lemma parseBlackSqls_loop_trim:
  "parseBlackSqls_loop x (map TrimSpace l) acc = parseBlackSqls_loop x l acc"
  by (induction l arbitrary: acc) (simp_all add: TrimSpace_idem)

lemma parseBlackSqls_loop_keys:
  "fst ` set (parseBlackSqls_loop x l acc) =
     fst ` set acc \<union> {GetMd5 x (GetFingerprint x (TrimSpace s)) |s. s \<in> set l \<and> TrimSpace s \<noteq> []}"
  by (induction l arbitrary: acc) (auto simp: dom_update)

lemma parseBlackSqls_loop_distinct:
  "distinct (map fst acc) \<Longrightarrow> distinct (map fst (parseBlackSqls_loop x l acc))"
  by (induction l arbitrary: acc) (simp_all add: distinct_update)

lemma body_sqls:
  "c_ret (NewNamespace_body x cfg) = None \<Longrightarrow>
   sqls (c_namespace (NewNamespace_body x cfg)) = parseBlackSqls x (BlackSQL cfg)"
  by (auto simp: body_defs new_struct_def split: sum.splits prod.splits option.splits if_splits)

text \<open>
  C6. With an empty blacklist \<open>IsSQLAllowed\<close> answers yes and leaves the request
  context alone. Otherwise it stores the fingerprint of the statement in the context
  under the key \<open>fingerprint\<close> and answers no exactly when the md5 of the fingerprint
  is a key of the blacklist. The blacklist of a constructed namespace is parsed from
  the configured list: its keys are the md5s of the fingerprints of the trimmed
  entries that are not empty, each key once, and trimming the entries beforehand
  gives the same blacklist.
\<close>

theorem IsSQLAllowed_blacklist:
  "(sqls n = [] \<longrightarrow> IsSQLAllowed x n ctx sql = (True, ctx))
   \<and> (sqls n \<noteq> [] \<longrightarrow>
        IsSQLAllowed x n ctx sql =
          (GetMd5 x (GetFingerprint x sql) \<notin> fst ` set (sqls n),
           AList.update ''fingerprint'' (GetFingerprint x sql) ctx))
   \<and> (returned (NewNamespace x cfg) = Inr n \<longrightarrow> sqls n = parseBlackSqls x (BlackSQL cfg))
   \<and> parseBlackSqls x (map TrimSpace l) = parseBlackSqls x l
   \<and> fst ` set (parseBlackSqls x l) =
        {GetMd5 x (GetFingerprint x (TrimSpace s)) |s. s \<in> set l \<and> TrimSpace s \<noteq> []}
   \<and> distinct (map fst (parseBlackSqls x l))"
proof -
  have "sqls n \<noteq> [] \<longrightarrow>
        IsSQLAllowed x n ctx sql =
          (GetMd5 x (GetFingerprint x sql) \<notin> fst ` set (sqls n),
           AList.update ''fingerprint'' (GetFingerprint x sql) ctx)"
    by (auto simp: IsSQLAllowed_def map_of_eq_None_iff split: option.splits
        dest: map_of_SomeD intro: rev_image_eqI)
  moreover have "returned (NewNamespace x cfg) = Inr n \<longrightarrow> sqls n = parseBlackSqls x (BlackSQL cfg)"
    by (simp add: returned_Inr body_sqls)
  moreover have "sqls n = [] \<longrightarrow> IsSQLAllowed x n ctx sql = (True, ctx)"
    by (simp add: IsSQLAllowed_def)
  ultimately show ?thesis
    using parseBlackSqls_loop_keys[of x l "[]"] parseBlackSqls_loop_distinct[of "[]" x l]
    by (simp add: parseBlackSqls_def parseBlackSqls_loop_trim)
qed

lemma blacklist_accepted:
  "returned (NewNamespace example_collaborators blacklist_config)
     = Inr (c_namespace (NewNamespace_body example_collaborators blacklist_config))"
  by (simp add: returned_Inr body_defs new_struct_def eval_defs blacklist_config_def)

lemma ToLower_select: "ToLower ''SELECT 1'' = ''select 1''" "ToLower ''select 1'' = ''select 1''"
  "ToLower ''Select 2'' = ''select 2''"
  by (simp_all add: ToLower_def lower_char_def)

lemma blacklist_parsed:
  "parseBlackSqls example_collaborators (BlackSQL blacklist_config) = [(''1 tceles'', ''select 1'')]"
  by (simp add: parseBlackSqls_def blacklist_config_def example_collaborators_def
      TrimSpace_examples ToLower_select)

theorem IsSQLAllowed_blacklist_witness:
  "sqls (example_namespace 0 0 0) = []
   \<and> IsSQLAllowed example_collaborators (example_namespace 0 0 0) [] ''SELECT 1'' = (True, [])
   \<and> returned (NewNamespace example_collaborators blacklist_config)
       = Inr (c_namespace (NewNamespace_body example_collaborators blacklist_config))
   \<and> sqls (c_namespace (NewNamespace_body example_collaborators blacklist_config))
       = [(''1 tceles'', ''select 1'')]
   \<and> IsSQLAllowed example_collaborators
        (c_namespace (NewNamespace_body example_collaborators blacklist_config)) [] ''SELECT 1''
       = (False, [(''fingerprint'', ''select 1'')])
   \<and> IsSQLAllowed example_collaborators
        (c_namespace (NewNamespace_body example_collaborators blacklist_config)) [] ''Select 2''
       = (True, [(''fingerprint'', ''select 2'')])"
proof -
  let ?n = "c_namespace (NewNamespace_body example_collaborators blacklist_config)"
  have e: "sqls (example_namespace 0 0 0) = []"
    using IsSQLAllowed_blacklist[of "example_namespace 0 0 0" example_collaborators _ _
        "example_config' 0 0 0"] example_returned[of 0 0 0]
    by (simp add: parseBlackSqls_def example_config'_def example_config_def)
  have s: "sqls ?n = [(''1 tceles'', ''select 1'')]"
    using IsSQLAllowed_blacklist[of ?n example_collaborators _ _ blacklist_config]
      blacklist_accepted by (simp add: blacklist_parsed)
  have f: "GetFingerprint example_collaborators = ToLower" "GetMd5 example_collaborators = rev"
    by (simp_all add: example_collaborators_def)
  have a1: "IsSQLAllowed example_collaborators (example_namespace 0 0 0) [] ''SELECT 1'' = (True, [])"
    using IsSQLAllowed_blacklist[of "example_namespace 0 0 0" example_collaborators "[]"
        "''SELECT 1''" "example_config' 0 0 0" "[]"] e by simp
  have a2: "IsSQLAllowed example_collaborators ?n [] ''SELECT 1''
       = (False, [(''fingerprint'', ''select 1'')])"
    using IsSQLAllowed_blacklist[of ?n example_collaborators "[]" "''SELECT 1''"
        blacklist_config "[]"] s by (simp add: f ToLower_select)
  have a3: "IsSQLAllowed example_collaborators ?n [] ''Select 2''
       = (True, [(''fingerprint'', ''select 2'')])"
    using IsSQLAllowed_blacklist[of ?n example_collaborators "[]" "''Select 2''"
        blacklist_config "[]"] s by (simp add: f ToLower_select)
  show ?thesis
    using e s a1 a2 a3 blacklist_accepted by simp
qed

subsection \<open>The default physical DB\<close>

lemma identity_loop_map_of:
  "map_of (identity_loop al acc) d = (if d \<in> fst ` set al then Some d else map_of acc d)"
  by (induction al acc rule: identity_loop.induct) (auto simp: update_conv')

lemma logic_loop_None:
  "logic_loop dp al = None \<Longrightarrow> d \<in> fst ` set al \<Longrightarrow> \<exists>p. map_of dp d = Some p"
  by (induction dp al rule: logic_loop.induct) (auto split: option.splits)

lemma trim_defaultPhyDBs_map_of:
  "map_of (trim_defaultPhyDBs l acc) d = Some p \<Longrightarrow>
     (\<exists>k v. (k, v) \<in> set l \<and> TrimSpace k = d \<and> TrimSpace v = p) \<or> map_of acc d = Some p"
proof (induction l acc rule: trim_defaultPhyDBs.induct)
  case (1 acc)
  then show ?case by simp
next
  case (2 db phyDB rest acc)
  from 2 have "(\<exists>k v. (k, v) \<in> set rest \<and> TrimSpace k = d \<and> TrimSpace v = p)
      \<or> map_of (AList.update (TrimSpace db) (TrimSpace phyDB) acc) d = Some p"
    by simp
  then show ?case
    by (auto simp: update_conv' split: if_splits)
qed

lemma trim_defaultPhyDBs_nonempty:
  "acc \<noteq> [] \<or> l \<noteq> [] \<Longrightarrow> trim_defaultPhyDBs l acc \<noteq> []"
  by (induction l acc rule: trim_defaultPhyDBs.induct) simp_all

text \<open>
  C7 (as amended). \<open>GetDefaultPhyDB\<close> of the empty name is the empty string and no
  error; of a name that is not empty and not a key of the physical-DB map, the
  invalid-db error. For a DB \<open>d\<close> among the allowed DBs of a constructed namespace it
  is never an error; it is \<open>d\<close> when no physical names are configured; and when some
  are and \<open>d\<close> is not empty, it is the trimmed physical name of a configured entry
  whose trimmed key is \<open>d\<close>.
\<close>

theorem GetDefaultPhyDB_cases:
  "GetDefaultPhyDB n [] = Inr []
   \<and> (d \<noteq> [] \<and> d \<notin> fst ` set (defaultPhyDBs n) \<longrightarrow> GetDefaultPhyDB n d = Inl (InvalidDB d))
   \<and> (returned (NewNamespace x cfg) = Inr n \<and> d \<in> fst ` set (allowedDBs n) \<longrightarrow>
        (\<exists>p. GetDefaultPhyDB n d = Inr p)
        \<and> (DefaultPhyDBS cfg = [] \<longrightarrow> GetDefaultPhyDB n d = Inr d)
        \<and> (DefaultPhyDBS cfg \<noteq> [] \<and> d \<noteq> [] \<longrightarrow>
             (\<exists>k v. (k, v) \<in> set (DefaultPhyDBS cfg) \<and> TrimSpace k = d
                \<and> GetDefaultPhyDB n d = Inr (TrimSpace v))))"
proof -
  have absent: "d \<noteq> [] \<and> d \<notin> fst ` set (defaultPhyDBs n) \<longrightarrow>
      GetDefaultPhyDB n d = Inl (InvalidDB d)"
  proof
    assume a: "d \<noteq> [] \<and> d \<notin> fst ` set (defaultPhyDBs n)"
    then have "map_of (defaultPhyDBs n) d = None" by (simp add: map_of_eq_None_iff)
    then show "GetDefaultPhyDB n d = Inl (InvalidDB d)" using a by (simp add: GetDefaultPhyDB_def)
  qed
  have allowed: "(\<exists>p. GetDefaultPhyDB n d = Inr p)
        \<and> (DefaultPhyDBS cfg = [] \<longrightarrow> GetDefaultPhyDB n d = Inr d)
        \<and> (DefaultPhyDBS cfg \<noteq> [] \<and> d \<noteq> [] \<longrightarrow>
             (\<exists>k v. (k, v) \<in> set (DefaultPhyDBS cfg) \<and> TrimSpace k = d
                \<and> GetDefaultPhyDB n d = Inr (TrimSpace v)))"
    if r: "returned (NewNamespace x cfg) = Inr n" and d: "d \<in> fst ` set (allowedDBs n)"
  proof -
    let ?dp = "trim_defaultPhyDBs (DefaultPhyDBS cfg) []"
    let ?al = "trim_allowedDBs (AllowedDBS cfg) []"
    have ok: "c_ret (NewNamespace_body x cfg) = None"
      and n: "n = c_namespace (NewNamespace_body x cfg)"
      using r by (simp_all add: returned_Inr)
    have al: "allowedDBs n = ?al" using body_success_fields(5)[OF ok] n by simp
    have pd: "parseDefaultPhyDB ?dp ?al = Inr (defaultPhyDBs n)"
      using body_success_fields(6)[OF ok] n by simp
    show ?thesis
    proof (cases "DefaultPhyDBS cfg = []")
      case True
      then have "defaultPhyDBs n = identity_loop ?al []"
        using pd by (simp add: parseDefaultPhyDB_def)
      then have "map_of (defaultPhyDBs n) d = Some d"
        using d al by (simp add: identity_loop_map_of)
      then show ?thesis using True by (simp add: GetDefaultPhyDB_def)
    next
      case False
      then have ne: "?dp \<noteq> []" by (simp add: trim_defaultPhyDBs_nonempty)
      then have eq: "defaultPhyDBs n = ?dp" and ll: "logic_loop ?dp ?al = None"
        using pd by (auto simp: parseDefaultPhyDB_def split: option.splits)
      obtain p where p: "map_of ?dp d = Some p"
        using logic_loop_None[OF ll] d al by auto
      then obtain k v where kv: "(k, v) \<in> set (DefaultPhyDBS cfg)" "TrimSpace k = d"
          "TrimSpace v = p"
        using trim_defaultPhyDBs_map_of[OF p] by auto
      have "GetDefaultPhyDB n d = (if d = [] then Inr [] else Inr p)"
        using p eq by (simp add: GetDefaultPhyDB_def)
      then show ?thesis using False kv by auto
    qed
  qed
  show ?thesis
    using absent allowed by (simp add: GetDefaultPhyDB_def)
qed

lemma example_dbs:
  "allowedDBs (example_namespace m d b) = [(''sbtest1'', True)]"
  "defaultPhyDBs (example_namespace m d b) = [(''sbtest1'', ''sbtest1'')]"
  by (simp_all add: example_namespace_def body_defs new_struct_def eval_defs)

lemma logical_accepted:
  "returned (NewNamespace example_collaborators logical_config)
     = Inr (c_namespace (NewNamespace_body example_collaborators logical_config))"
  "allowedDBs (c_namespace (NewNamespace_body example_collaborators logical_config))
     = [(''sbtest1'', True)]"
  by (simp_all add: returned_Inr body_defs new_struct_def eval_defs logical_config_def)

theorem GetDefaultPhyDB_cases_witness:
  "GetDefaultPhyDB (example_namespace 0 0 0) ''other'' = Inl (InvalidDB ''other'')
   \<and> returned (NewNamespace example_collaborators (example_config' 0 0 0))
       = Inr (example_namespace 0 0 0)
   \<and> ''sbtest1'' \<in> fst ` set (allowedDBs (example_namespace 0 0 0))
   \<and> DefaultPhyDBS (example_config' 0 0 0) = []
   \<and> GetDefaultPhyDB (example_namespace 0 0 0) ''sbtest1'' = Inr ''sbtest1''
   \<and> returned (NewNamespace example_collaborators logical_config)
       = Inr (c_namespace (NewNamespace_body example_collaborators logical_config))
   \<and> ''sbtest1'' \<in> fst ` set (allowedDBs
         (c_namespace (NewNamespace_body example_collaborators logical_config)))
   \<and> DefaultPhyDBS logical_config =
       [('' sbtest1'', [CHR ''p'', CHR ''h'', CHR ''y'', CHR ''1'', CHR 0xC2, CHR 0xA0])]
   \<and> GetDefaultPhyDB (c_namespace (NewNamespace_body example_collaborators logical_config))
        ''sbtest1'' = Inr ''phy1''"
proof -
  let ?n = "c_namespace (NewNamespace_body example_collaborators logical_config)"
  have c0: "DefaultPhyDBS (example_config' 0 0 0) = []"
    by (simp add: example_config'_def example_config_def)
  have c1: "DefaultPhyDBS logical_config =
       [('' sbtest1'', [CHR ''p'', CHR ''h'', CHR ''y'', CHR ''1'', CHR 0xC2, CHR 0xA0])]"
    by (simp add: logical_config_def)
  have r0: "returned (NewNamespace example_collaborators (example_config' 0 0 0))
       = Inr (example_namespace 0 0 0)"
    by (simp add: example_returned)
  have a1: "GetDefaultPhyDB (example_namespace 0 0 0) ''other'' = Inl (InvalidDB ''other'')"
    using GetDefaultPhyDB_cases[of "example_namespace 0 0 0" "''other''" example_collaborators
        "example_config' 0 0 0"] by (simp add: example_dbs)
  have a2: "GetDefaultPhyDB (example_namespace 0 0 0) ''sbtest1'' = Inr ''sbtest1''"
    using GetDefaultPhyDB_cases[of "example_namespace 0 0 0" "''sbtest1''" example_collaborators
        "example_config' 0 0 0"] r0 c0 by (simp add: example_dbs)
  have a3: "GetDefaultPhyDB ?n ''sbtest1'' = Inr ''phy1''"
    using GetDefaultPhyDB_cases[of ?n "''sbtest1''" example_collaborators logical_config]
      logical_accepted c1 by (simp add: TrimSpace_examples)
  show ?thesis
    using a1 a2 a3 r0 c0 c1 logical_accepted by (simp add: example_dbs)
qed

text \<open>
  With physical names configured and the empty name among the allowed DBs,
  \<open>GetDefaultPhyDB\<close> of that DB is the empty string and not the configured physical
  name.
\<close>

theorem empty_name_not_mapped:
  "returned (NewNamespace example_collaborators empty_name_config)
     = Inr (c_namespace (NewNamespace_body example_collaborators empty_name_config))
   \<and> allowedDBs (c_namespace (NewNamespace_body example_collaborators empty_name_config))
       = [([], True)]
   \<and> DefaultPhyDBS empty_name_config = [([], ''phy'')]
   \<and> defaultPhyDBs (c_namespace (NewNamespace_body example_collaborators empty_name_config))
       = [([], ''phy'')]
   \<and> GetDefaultPhyDB (c_namespace (NewNamespace_body example_collaborators empty_name_config)) []
       = Inr []
   \<and> GetDefaultPhyDB (c_namespace (NewNamespace_body example_collaborators empty_name_config)) []
       \<noteq> Inr ''phy''"
  by (simp add: returned_Inr GetDefaultPhyDB_def)
     (simp add: body_defs new_struct_def eval_defs empty_name_config_def)

end
